theory Spec2Isabelle
  imports Main "HOL-Library.Word"
begin

unbundle bit_operations_syntax

section \<open>MacIO interrupt controller register offsets\<close>

text \<open>
  \<^verbatim>\<open>devices/ioctrl/macio.h\<close>, the anonymous enum
  ``Offsets to common MacIO interrupt registers''. The enumerators are plain integer
  constants; they are kept as 32-bit offsets into the controller's MMIO region.
\<close>

definition MIO_INT_EVENTS2 :: "32 word" where
  "MIO_INT_EVENTS2 = 0x10"

definition MIO_INT_MASK2 :: "32 word" where
  "MIO_INT_MASK2 = 0x14"

definition MIO_INT_CLEAR2 :: "32 word" where
  "MIO_INT_CLEAR2 = 0x18"

definition MIO_INT_LEVELS2 :: "32 word" where
  "MIO_INT_LEVELS2 = 0x1C"

definition MIO_INT_EVENTS1 :: "32 word" where
  "MIO_INT_EVENTS1 = 0x20"

definition MIO_INT_MASK1 :: "32 word" where
  "MIO_INT_MASK1 = 0x24"

definition MIO_INT_CLEAR1 :: "32 word" where
  "MIO_INT_CLEAR1 = 0x28"

definition MIO_INT_LEVELS1 :: "32 word" where
  "MIO_INT_LEVELS1 = 0x2C"

section \<open>Generic SCSI hard disk\<close>










section \<open>PowerPC floating-point opcodes\<close>

text \<open>
  \<^verbatim>\<open>cpu/ppc/ppcfpopcodes.cpp\<close>. The handlers take no argument: they read the
  current instruction word and the Rc flag from globals and work on the global
  \<^verbatim>\<open>ppc_state\<close>. Here the globals are the fields of one record that every
  handler takes and returns.
\<close>

type_synonym u8 = "8 word"
type_synonym u32 = "32 word"
type_synonym u64 = "64 word"

subsection \<open>Constants of the header\<close>

text \<open>
  Modelled from the spec: the enum \<^verbatim>\<open>FPSCR\<close> of \<^verbatim>\<open>ppcemu.h\<close>, which is
  not among the source files. The spec names the fields (status bits FX, FEX, VX, OX, UX,
  ZX, XX; cause bits VXSNAN ... VXCVI; FPCC = FL, FG, FE, FU; the enables; RN) in the
  order of the PowerPC FPSCR, FX being the most significant bit. The literals of
  \<^verbatim>\<open>ppcfpopcodes.cpp\<close> agree with that layout: \<^verbatim>\<open>update_fex\<close> writes FEX as
  \<^verbatim>\<open>0x40000000\<close> and lines the enables up with \<^verbatim>\<open>0x3E000000\<close> by a shift of 22,
  \<^verbatim>\<open>ppc_mtfsb0\<close> takes bits 1 and 2 (from the top) for FEX and VX,
  \<^verbatim>\<open>ppc_fres\<close> clears FR and FI with \<^verbatim>\<open>0xFFF9FFFF\<close>, and
  \<^verbatim>\<open>ppc_fcmpo\<close> moves the CR bits into FPCC by a shift of 16.
\<close>

definition FPSCR_RN_MASK :: u32 where "FPSCR_RN_MASK = 0x3"
definition FPSCR_NI :: u32 where "FPSCR_NI = 0x4"
definition FPSCR_XE :: u32 where "FPSCR_XE = 0x8"
definition FPSCR_ZE :: u32 where "FPSCR_ZE = 0x10"
definition FPSCR_UE :: u32 where "FPSCR_UE = 0x20"
definition FPSCR_OE :: u32 where "FPSCR_OE = 0x40"
definition FPSCR_VE :: u32 where "FPSCR_VE = 0x80"
definition FPSCR_VXCVI :: u32 where "FPSCR_VXCVI = 0x100"
definition FPSCR_VXSQRT :: u32 where "FPSCR_VXSQRT = 0x200"
definition FPSCR_VXSOFT :: u32 where "FPSCR_VXSOFT = 0x400"
definition FPCC_FUNAN :: u32 where "FPCC_FUNAN = 0x1000"
definition FPCC_ZERO :: u32 where "FPCC_ZERO = 0x2000"
definition FPCC_POS :: u32 where "FPCC_POS = 0x4000"
definition FPCC_NEG :: u32 where "FPCC_NEG = 0x8000"
definition FPSCR_FPCC_MASK :: u32 where "FPSCR_FPCC_MASK = 0xF000"
definition FPRCD :: u32 where "FPRCD = 0x10000"
definition FPSCR_FI :: u32 where "FPSCR_FI = 0x20000"
definition FPSCR_FR :: u32 where "FPSCR_FR = 0x40000"
definition FPSCR_VXVC :: u32 where "FPSCR_VXVC = 0x80000"
definition FPSCR_VXIMZ :: u32 where "FPSCR_VXIMZ = 0x100000"
definition FPSCR_VXZDZ :: u32 where "FPSCR_VXZDZ = 0x200000"
definition FPSCR_VXIDI :: u32 where "FPSCR_VXIDI = 0x400000"
definition FPSCR_VXISI :: u32 where "FPSCR_VXISI = 0x800000"
definition FPSCR_VXSNAN :: u32 where "FPSCR_VXSNAN = 0x1000000"
definition FPSCR_XX :: u32 where "FPSCR_XX = 0x2000000"
definition FPSCR_ZX :: u32 where "FPSCR_ZX = 0x4000000"
definition FPSCR_UX :: u32 where "FPSCR_UX = 0x8000000"
definition FPSCR_OX :: u32 where "FPSCR_OX = 0x10000000"
definition FPSCR_VX :: u32 where "FPSCR_VX = 0x20000000"
definition FPSCR_FEX :: u32 where "FPSCR_FEX = 0x40000000"
definition FPSCR_FX :: u32 where "FPSCR_FX = 0x80000000"

lemmas FPSCR_defs =
  FPSCR_RN_MASK_def FPSCR_NI_def FPSCR_XE_def FPSCR_ZE_def FPSCR_UE_def FPSCR_OE_def
  FPSCR_VE_def FPSCR_VXCVI_def FPSCR_VXSQRT_def FPSCR_VXSOFT_def FPCC_FUNAN_def
  FPCC_ZERO_def FPCC_POS_def FPCC_NEG_def FPSCR_FPCC_MASK_def FPRCD_def FPSCR_FI_def
  FPSCR_FR_def FPSCR_VXVC_def FPSCR_VXIMZ_def FPSCR_VXZDZ_def FPSCR_VXIDI_def
  FPSCR_VXISI_def FPSCR_VXSNAN_def FPSCR_XX_def FPSCR_ZX_def FPSCR_UX_def FPSCR_OX_def
  FPSCR_VX_def FPSCR_FEX_def FPSCR_FX_def

text \<open>
  Modelled from the spec: \<^verbatim>\<open>CR_select::CR1_field\<close> and the enum
  \<^verbatim>\<open>CRx_bit\<close> of \<^verbatim>\<open>ppcemu.h\<close>. The condition register is ``partitioned into
  eight 4-bit fields''; CR1 is the second from the top, and a field holds LT, GT, EQ, SO
  from its most significant bit down. \<^verbatim>\<open>ppc_fcmpo\<close> uses the \<^verbatim>\<open>CRx_bit\<close>
  values as masks of field 0, which it shifts right by the field's position.
\<close>

definition CR1_field :: u32 where "CR1_field = 0x0F000000"
definition CR_SO :: u32 where "CR_SO = 0x10000000"
definition CR_EQ :: u32 where "CR_EQ = 0x20000000"
definition CR_GT :: u32 where "CR_GT = 0x40000000"
definition CR_LT :: u32 where "CR_LT = 0x80000000"

lemmas CR_defs = CR1_field_def CR_SO_def CR_EQ_def CR_GT_def CR_LT_def

text \<open>
  Modelled from the spec: the enums \<^verbatim>\<open>FPOP\<close>, \<^verbatim>\<open>Except_Type\<close> and
  \<^verbatim>\<open>Exc_Cause\<close> of \<^verbatim>\<open>ppcemu.h\<close>. \<^verbatim>\<open>FPOP\<close> has the five operations
  \<^verbatim>\<open>ppc_confirm_inf_nan\<close> switches on; the exception types are the taxonomy of
  the spec's error-handling section, the causes those of its ``Program'' entry.
\<close>

datatype FPOP = DIV | SUB | ADD | SQRT | MUL

datatype Except_Type =
    EXC_SYSTEM_RESET | EXC_MACHINE_CHECK | EXC_DSI | EXC_ISI | EXC_EXT_INT
  | EXC_ALIGNMENT | EXC_PROGRAM | EXC_NO_FPU | EXC_DECR | EXC_SYSCALL | EXC_TRACE

datatype Exc_Cause = FPU_OFF | ILLEGAL_OP | NOT_ALLOWED | TRAP | FPU_EXCEPTION

subsection \<open>The host\<close>

text \<open>
  A \<^verbatim>\<open>double\<close> is kept as its IEEE-754 bit pattern, which is also the
  \<^verbatim>\<open>int64_r\<close> view of a floating-point register. What the host decides from the
  bits alone (classification, comparison, negation) is defined on the pattern; what the
  host FPU computes (arithmetic, rounding to single, conversions) is a field of
  \<open>host_fpu\<close>, so that every theorem holds for whatever the host computes.
\<close>

datatype host_rounding = FE_TONEAREST | FE_TOWARDZERO | FE_UPWARD | FE_DOWNWARD

definition isnan :: "u64 \<Rightarrow> bool" where
  "isnan d = (d AND 0x7FF0000000000000 = 0x7FF0000000000000 \<and> d AND 0x000FFFFFFFFFFFFF \<noteq> 0)"

definition isinf :: "u64 \<Rightarrow> bool" where
  "isinf d = (d AND 0x7FFFFFFFFFFFFFFF = 0x7FF0000000000000)"

text \<open>
  The order of two doubles that are not NaN is the order of their sign-magnitude
  integers; both zeros have magnitude 0. Every comparison with a NaN is false.
\<close>

definition dbl_key :: "u64 \<Rightarrow> int" where
  "dbl_key d =
     (if d AND 0x8000000000000000 = 0 then uint (d AND 0x7FFFFFFFFFFFFFFF)
      else - uint (d AND 0x7FFFFFFFFFFFFFFF))"

definition dbl_lt :: "u64 \<Rightarrow> u64 \<Rightarrow> bool" where
  "dbl_lt a b = (\<not> isnan a \<and> \<not> isnan b \<and> dbl_key a < dbl_key b)"

definition dbl_gt :: "u64 \<Rightarrow> u64 \<Rightarrow> bool" where
  "dbl_gt a b = (\<not> isnan a \<and> \<not> isnan b \<and> dbl_key b < dbl_key a)"

definition dbl_ge :: "u64 \<Rightarrow> u64 \<Rightarrow> bool" where
  "dbl_ge a b = (\<not> isnan a \<and> \<not> isnan b \<and> dbl_key b \<le> dbl_key a)"

definition dbl_eq :: "u64 \<Rightarrow> u64 \<Rightarrow> bool" where
  "dbl_eq a b = (\<not> isnan a \<and> \<not> isnan b \<and> dbl_key a = dbl_key b)"

definition dbl_neg :: "u64 \<Rightarrow> u64" where
  "dbl_neg d = d XOR 0x8000000000000000"

definition DBL_0 :: u64 where "DBL_0 = 0"
definition DBL_NEG_0 :: u64 where "DBL_NEG_0 = 0x8000000000000000"
definition DBL_HALF :: u64 where "DBL_HALF = 0x3FE0000000000000"
definition DBL_1 :: u64 where "DBL_1 = 0x3FF0000000000000"
definition DBL_NEG_1 :: u64 where "DBL_NEG_1 = 0xBFF0000000000000"

text \<open>\<^verbatim>\<open>static_cast<double>(0x7fffffff)\<close> and \<^verbatim>\<open>-static_cast<double>(0x80000000)\<close>\<close>

definition DBL_INT32_MAX :: u64 where "DBL_INT32_MAX = 0x41DFFFFFFFC00000"
definition DBL_INT32_MIN :: u64 where "DBL_INT32_MIN = 0xC1E0000000000000"

lemmas DBL_defs =
  DBL_0_def DBL_NEG_0_def DBL_HALF_def DBL_1_def DBL_NEG_1_def DBL_INT32_MAX_def
  DBL_INT32_MIN_def

record host_fpu =
  h_add :: "host_rounding \<Rightarrow> u64 \<Rightarrow> u64 \<Rightarrow> u64"
  h_sub :: "host_rounding \<Rightarrow> u64 \<Rightarrow> u64 \<Rightarrow> u64"
  h_mul :: "host_rounding \<Rightarrow> u64 \<Rightarrow> u64 \<Rightarrow> u64"
  h_div :: "host_rounding \<Rightarrow> u64 \<Rightarrow> u64 \<Rightarrow> u64"
  h_fma :: "host_rounding \<Rightarrow> u64 \<Rightarrow> u64 \<Rightarrow> u64 \<Rightarrow> u64"
  h_to_float :: "host_rounding \<Rightarrow> u64 \<Rightarrow> u64"
  h_floor :: "u64 \<Rightarrow> u64"
  h_ceil :: "u64 \<Rightarrow> u64"
  h_trunc :: "u64 \<Rightarrow> u64"
  h_to_int32 :: "u64 \<Rightarrow> u32"
  h_to_int64 :: "u64 \<Rightarrow> u64"
  h_float_bits_to_double :: "u32 \<Rightarrow> u64"
  h_double_to_float_bits :: "host_rounding \<Rightarrow> u64 \<Rightarrow> u32"
  h_FP_ZERO :: u64

text \<open>
  The memory unit (\<^verbatim>\<open>mmu_read_vmem\<close>, \<^verbatim>\<open>mmu_write_vmem\<close> of
  \<^verbatim>\<open>ppcmmu.h\<close>) is outside these files: its four operations are taken as they
  come, on a memory state \<open>'m\<close> of the memory unit's own that an access may change.
\<close>

record 'm mmu =
  mmu_read_u32 :: "'m \<Rightarrow> u32 \<Rightarrow> u32 \<times> 'm"
  mmu_read_u64 :: "'m \<Rightarrow> u32 \<Rightarrow> u64 \<times> 'm"
  mmu_write_u32 :: "'m \<Rightarrow> u32 \<Rightarrow> u32 \<Rightarrow> 'm"
  mmu_write_u64 :: "'m \<Rightarrow> u32 \<Rightarrow> u64 \<Rightarrow> 'm"

subsection \<open>Guest state\<close>

datatype ppc_signal = PPC_EXCEPTION Except_Type Exc_Cause | PPC_FLOATING_POINT_EXCEPTION

record 'm ppc_state =
  gpr :: "nat \<Rightarrow> u32"
  fpr :: "nat \<Rightarrow> u64"
  cr :: u32
  fpscr :: u32
  ppc_cur_instruction :: u32
  rc_flag :: bool
  ppc_effective_address :: u32
  host_round :: host_rounding
  signalled :: "ppc_signal list"
  mem :: 'm

text \<open>
  Modelled from the spec: \<^verbatim>\<open>ppc_exception_handler\<close> and
  \<^verbatim>\<open>ppc_floating_point_exception\<close>, declared in \<^verbatim>\<open>ppcemu.h\<close> and defined
  outside these files. ``Errors are signalled by invoking the exception-delivery
  routine with a taxon''; the delivery itself (SRR0, SRR1, MSR, the vector) is the
  exception bookkeeping, kept here as the list of signals raised.
\<close>

definition ppc_exception_handler ::
    "Except_Type \<Rightarrow> Exc_Cause \<Rightarrow> 'm ppc_state \<Rightarrow> 'm ppc_state" where
  "ppc_exception_handler exception_type cause s =
     s\<lparr>signalled := signalled s @ [PPC_EXCEPTION exception_type cause]\<rparr>"

definition ppc_floating_point_exception :: "'m ppc_state \<Rightarrow> 'm ppc_state" where
  "ppc_floating_point_exception s =
     s\<lparr>signalled := signalled s @ [PPC_FLOATING_POINT_EXCEPTION]\<rparr>"

subsection \<open>Register fields of the instruction word\<close>

text \<open>The \<^verbatim>\<open>ppc_grab_regs...\<close> macros: \<^verbatim>\<open>(ppc_cur_instruction >> n) & 31\<close>.\<close>

definition REG_D :: "u32 \<Rightarrow> nat" where
  "REG_D instr = unat (drop_bit 21 instr AND 31)"

definition REG_A :: "u32 \<Rightarrow> nat" where
  "REG_A instr = unat (drop_bit 16 instr AND 31)"

definition REG_B :: "u32 \<Rightarrow> nat" where
  "REG_B instr = unat (drop_bit 11 instr AND 31)"

definition REG_C :: "u32 \<Rightarrow> nat" where
  "REG_C instr = unat (drop_bit 6 instr AND 31)"

text \<open>\<^verbatim>\<open>(ppc_cur_instruction >> 21) & 0x1C\<close>, four times the CR field number.\<close>

definition CRF_D :: "u32 \<Rightarrow> nat" where
  "CRF_D instr = unat (drop_bit 21 instr AND 0x1C)"

text \<open>\<^verbatim>\<open>int32_t(int16_t(ppc_cur_instruction))\<close>, the sign-extended displacement.\<close>

definition DISP :: "u32 \<Rightarrow> u32" where
  "DISP instr = scast (ucast instr :: 16 word)"

text \<open>
  \<^verbatim>\<open>ppc_store_dfpresult_flt(reg)\<close>, \<^verbatim>\<open>ppc_store_sfpresult_flt(reg)\<close> and the two
  \<^verbatim>\<open>_int\<close> macros: all four assign the 64 bits of the result to
  \<^verbatim>\<open>ppc_state.fpr[reg]\<close>.
\<close>

definition store_fpresult :: "nat \<Rightarrow> u64 \<Rightarrow> 'm ppc_state \<Rightarrow> 'm ppc_state" where
  "store_fpresult reg v s = s\<lparr>fpr := (fpr s)(reg := v)\<rparr>"

subsection \<open>FPSCR helpers\<close>

definition ppc_update_cr1 :: "'m ppc_state \<Rightarrow> 'm ppc_state" where
  "ppc_update_cr1 s =
     s\<lparr>cr := (cr s AND NOT CR1_field) OR (drop_bit 4 (fpscr s) AND CR1_field)\<rparr>"

text \<open>The tail of most handlers: \<^verbatim>\<open>if (rc_flag) ppc_update_cr1();\<close>\<close>

definition rc_update :: "'m ppc_state \<Rightarrow> 'm ppc_state" where
  "rc_update s = (if rc_flag s then ppc_update_cr1 s else s)"

definition set_host_rounding_mode :: "u8 \<Rightarrow> 'm ppc_state \<Rightarrow> 'm ppc_state" where
  "set_host_rounding_mode mode s =
     (let m = mode AND ucast FPSCR_RN_MASK in
      if m = 0 then s\<lparr>host_round := FE_TONEAREST\<rparr>
      else if m = 1 then s\<lparr>host_round := FE_TOWARDZERO\<rparr>
      else if m = 2 then s\<lparr>host_round := FE_UPWARD\<rparr>
      else if m = 3 then s\<lparr>host_round := FE_DOWNWARD\<rparr>
      else s)"

definition update_fpscr :: "u32 \<Rightarrow> 'm ppc_state \<Rightarrow> 'm ppc_state" where
  "update_fpscr new_fpscr s =
     (let s1 = (if new_fpscr AND FPSCR_RN_MASK \<noteq> fpscr s AND FPSCR_RN_MASK
                then set_host_rounding_mode (ucast (new_fpscr AND FPSCR_RN_MASK)) s
                else s)
      in s1\<lparr>fpscr := new_fpscr\<rparr>)"

definition update_fex :: "'m ppc_state \<Rightarrow> 'm ppc_state" where
  "update_fex s =
     (let fex_result = (if (fpscr s AND push_bit 22 (fpscr s)) AND 0x3E000000 \<noteq> 0
                        then 1 else 0 :: u32)
      in s\<lparr>fpscr := (fpscr s AND NOT 0x40000000) OR push_bit 30 fex_result\<rparr>)"

definition fpscr_set :: "u32 \<Rightarrow> 'm ppc_state \<Rightarrow> 'm ppc_state" where
  "fpscr_set bits s = s\<lparr>fpscr := fpscr s OR bits\<rparr>"

definition fpscr_and :: "u32 \<Rightarrow> 'm ppc_state \<Rightarrow> 'm ppc_state" where
  "fpscr_and bits s = s\<lparr>fpscr := fpscr s AND bits\<rparr>"

definition ppc_confirm_inf_nan ::
    "FPOP \<Rightarrow> host_fpu \<Rightarrow> nat \<Rightarrow> nat \<Rightarrow> 'm ppc_state \<Rightarrow> 'm ppc_state" where
  "ppc_confirm_inf_nan fpop host chosen_reg_1 chosen_reg_2 s =
     (let input_a = fpr s chosen_reg_1;
          input_b = fpr s chosen_reg_2;
          s1 = fpscr_and 0x7fbfffff s
      in case fpop of
           DIV \<Rightarrow>
             update_fex
               (if isinf input_a \<and> isinf input_b
                then fpscr_set (FPSCR_FX OR FPSCR_VXIDI) s1
                else if dbl_eq input_a (h_FP_ZERO host) \<and> dbl_eq input_b (h_FP_ZERO host)
                then fpscr_set (FPSCR_FX OR FPSCR_VXZDZ) s1
                else s1)
         | SUB \<Rightarrow>
             (let s2 = (if isinf input_a \<and> isinf input_b
                        then fpscr_set (FPSCR_FX OR FPSCR_VXISI) s1 else s1);
                  s3 = (if isnan input_a \<and> isnan input_b
                        then fpscr_set (FPSCR_FX OR FPSCR_VXISI) s2 else s2)
              in update_fex s3)
         | ADD \<Rightarrow>
             update_fex
               (if isnan input_a \<and> isnan input_b
                then fpscr_set (FPSCR_FX OR FPSCR_VXISI) s1 else s1)
         | SQRT \<Rightarrow>
             update_fex
               (if isnan input_b \<or> dbl_eq input_b DBL_NEG_1
                then fpscr_set (FPSCR_FX OR FPSCR_VXSQRT) s1 else s1)
         | MUL \<Rightarrow>
             update_fex
               (if isnan input_a \<and> isnan input_b
                then fpscr_set FPSCR_FX s1 else s1))"

definition fpresult_update :: "u64 \<Rightarrow> 'm ppc_state \<Rightarrow> 'm ppc_state" where
  "fpresult_update set_result s =
     (if isnan set_result then fpscr_set (FPCC_FUNAN OR FPRCD) s
      else
        (let s1 = (if dbl_gt set_result DBL_0 then fpscr_set FPCC_POS s
                   else if dbl_lt set_result DBL_0 then fpscr_set FPCC_NEG s
                   else fpscr_set FPCC_ZERO s)
         in if isinf set_result then fpscr_set FPCC_FUNAN s1 else s1))"

subsection \<open>Floating-point arithmetic\<close>

text \<open>
  How every arithmetic handler ends: \<^verbatim>\<open>ppc_store_dfpresult_flt(reg_d)\<close> (or the
  \<^verbatim>\<open>sfpresult\<close> macro, which has the same body), \<^verbatim>\<open>fpresult_update\<close> on the
  result, and the CR1 update when Rc is set.
\<close>

definition fp_retire :: "u64 \<Rightarrow> 'm ppc_state \<Rightarrow> 'm ppc_state" where
  "fp_retire ppc_dblresult64_d s =
     rc_update (fpresult_update ppc_dblresult64_d
       (store_fpresult (REG_D (ppc_cur_instruction s)) ppc_dblresult64_d s))"

definition ppc_fadd :: "host_fpu \<Rightarrow> 'm ppc_state \<Rightarrow> 'm ppc_state" where
  "ppc_fadd host s =
     (let reg_a = REG_A (ppc_cur_instruction s);
          reg_b = REG_B (ppc_cur_instruction s);
          val_reg_a = fpr s reg_a;
          val_reg_b = fpr s reg_b;
          s1 = (if isnan val_reg_a \<or> isnan val_reg_b
                then ppc_confirm_inf_nan ADD host reg_a reg_b (fpscr_set FPCC_FUNAN s)
                else s)
      in fp_retire (h_add host (host_round s1) val_reg_a val_reg_b) s1)"

definition ppc_fsub :: "host_fpu \<Rightarrow> 'm ppc_state \<Rightarrow> 'm ppc_state" where
  "ppc_fsub host s =
     (let reg_a = REG_A (ppc_cur_instruction s);
          reg_b = REG_B (ppc_cur_instruction s);
          val_reg_a = fpr s reg_a;
          val_reg_b = fpr s reg_b;
          s1 = (if isnan val_reg_a \<or> isnan val_reg_b
                then ppc_confirm_inf_nan SUB host reg_a reg_b (fpscr_set FPCC_FUNAN s)
                else s)
      in fp_retire (h_sub host (host_round s1) val_reg_a val_reg_b) s1)"

definition ppc_fdiv :: "host_fpu \<Rightarrow> 'm ppc_state \<Rightarrow> 'm ppc_state" where
  "ppc_fdiv host s =
     (let reg_a = REG_A (ppc_cur_instruction s);
          reg_b = REG_B (ppc_cur_instruction s);
          val_reg_a = fpr s reg_a;
          val_reg_b = fpr s reg_b;
          s1 = (if isnan val_reg_a \<or> isnan val_reg_b
                then ppc_confirm_inf_nan DIV host reg_a reg_b s
                else s)
      in fp_retire (h_div host (host_round s1) val_reg_a val_reg_b) s1)"

definition ppc_fmul :: "host_fpu \<Rightarrow> 'm ppc_state \<Rightarrow> 'm ppc_state" where
  "ppc_fmul host s =
     (let reg_a = REG_A (ppc_cur_instruction s);
          reg_c = REG_C (ppc_cur_instruction s);
          val_reg_a = fpr s reg_a;
          val_reg_c = fpr s reg_c;
          s1 = (if isnan val_reg_a \<or> isnan val_reg_c
                then ppc_confirm_inf_nan MUL host reg_a reg_c s
                else s)
      in fp_retire (h_mul host (host_round s1) val_reg_a val_reg_c) s1)"

text \<open>
  The fused multiply-add family differs only in the second \<^verbatim>\<open>ppc_confirm_inf_nan\<close>
  (\<^verbatim>\<open>ADD\<close> or \<^verbatim>\<open>SUB\<close>) and in how the result is formed from
  \<^verbatim>\<open>std::fma\<close>; \<open>fma_checks\<close> is the part the eight handlers share.
\<close>

definition fma_checks :: "FPOP \<Rightarrow> host_fpu \<Rightarrow> 'm ppc_state \<Rightarrow> 'm ppc_state" where
  "fma_checks fpop2 host s =
     (let reg_a = REG_A (ppc_cur_instruction s);
          reg_b = REG_B (ppc_cur_instruction s);
          reg_c = REG_C (ppc_cur_instruction s);
          val_reg_a = fpr s reg_a;
          val_reg_b = fpr s reg_b;
          val_reg_c = fpr s reg_c;
          s1 = (if isnan val_reg_a \<or> isnan val_reg_c
                then ppc_confirm_inf_nan MUL host reg_a reg_c s
                else s)
      in if isnan val_reg_b then ppc_confirm_inf_nan fpop2 host reg_a reg_b s1 else s1)"

definition ppc_fmadd :: "host_fpu \<Rightarrow> 'm ppc_state \<Rightarrow> 'm ppc_state" where
  "ppc_fmadd host s =
     (let s1 = fma_checks ADD host s;
          val_reg_a = fpr s (REG_A (ppc_cur_instruction s));
          val_reg_b = fpr s (REG_B (ppc_cur_instruction s));
          val_reg_c = fpr s (REG_C (ppc_cur_instruction s))
      in fp_retire (h_fma host (host_round s1) val_reg_a val_reg_c val_reg_b) s1)"

definition ppc_fmsub :: "host_fpu \<Rightarrow> 'm ppc_state \<Rightarrow> 'm ppc_state" where
  "ppc_fmsub host s =
     (let s1 = fma_checks SUB host s;
          val_reg_a = fpr s (REG_A (ppc_cur_instruction s));
          val_reg_b = fpr s (REG_B (ppc_cur_instruction s));
          val_reg_c = fpr s (REG_C (ppc_cur_instruction s))
      in fp_retire (h_fma host (host_round s1) val_reg_a val_reg_c (dbl_neg val_reg_b)) s1)"

definition ppc_fnmadd :: "host_fpu \<Rightarrow> 'm ppc_state \<Rightarrow> 'm ppc_state" where
  "ppc_fnmadd host s =
     (let s1 = fma_checks ADD host s;
          val_reg_a = fpr s (REG_A (ppc_cur_instruction s));
          val_reg_b = fpr s (REG_B (ppc_cur_instruction s));
          val_reg_c = fpr s (REG_C (ppc_cur_instruction s))
      in fp_retire (dbl_neg (h_fma host (host_round s1) val_reg_a val_reg_c val_reg_b)) s1)"

definition ppc_fnmsub :: "host_fpu \<Rightarrow> 'm ppc_state \<Rightarrow> 'm ppc_state" where
  "ppc_fnmsub host s =
     (let s1 = fma_checks SUB host s;
          val_reg_a = fpr s (REG_A (ppc_cur_instruction s));
          val_reg_b = fpr s (REG_B (ppc_cur_instruction s));
          val_reg_c = fpr s (REG_C (ppc_cur_instruction s))
      in fp_retire (h_fma host (host_round s1) (dbl_neg val_reg_a) val_reg_c val_reg_b) s1)"

text \<open>The single-precision variants: the double result is rounded to \<^verbatim>\<open>float\<close>.\<close>

definition ppc_fadds :: "host_fpu \<Rightarrow> 'm ppc_state \<Rightarrow> 'm ppc_state" where
  "ppc_fadds host s =
     (let reg_a = REG_A (ppc_cur_instruction s);
          reg_b = REG_B (ppc_cur_instruction s);
          val_reg_a = fpr s reg_a;
          val_reg_b = fpr s reg_b;
          s1 = (if isnan val_reg_a \<or> isnan val_reg_b
                then ppc_confirm_inf_nan ADD host reg_a reg_b s
                else s)
      in fp_retire
           (h_to_float host (host_round s1) (h_add host (host_round s1) val_reg_a val_reg_b))
           s1)"

definition ppc_fsubs :: "host_fpu \<Rightarrow> 'm ppc_state \<Rightarrow> 'm ppc_state" where
  "ppc_fsubs host s =
     (let reg_a = REG_A (ppc_cur_instruction s);
          reg_b = REG_B (ppc_cur_instruction s);
          val_reg_a = fpr s reg_a;
          val_reg_b = fpr s reg_b;
          s1 = (if isnan val_reg_a \<or> isnan val_reg_b
                then ppc_confirm_inf_nan SUB host reg_a reg_b s
                else s)
      in fp_retire
           (h_to_float host (host_round s1) (h_sub host (host_round s1) val_reg_a val_reg_b))
           s1)"

definition ppc_fdivs :: "host_fpu \<Rightarrow> 'm ppc_state \<Rightarrow> 'm ppc_state" where
  "ppc_fdivs host s =
     (let reg_a = REG_A (ppc_cur_instruction s);
          reg_b = REG_B (ppc_cur_instruction s);
          val_reg_a = fpr s reg_a;
          val_reg_b = fpr s reg_b;
          s1 = (if isnan val_reg_a \<or> isnan val_reg_b
                then ppc_confirm_inf_nan DIV host reg_a reg_b s
                else s)
      in fp_retire
           (h_to_float host (host_round s1) (h_div host (host_round s1) val_reg_a val_reg_b))
           s1)"

definition ppc_fmuls :: "host_fpu \<Rightarrow> 'm ppc_state \<Rightarrow> 'm ppc_state" where
  "ppc_fmuls host s =
     (let reg_a = REG_A (ppc_cur_instruction s);
          reg_c = REG_C (ppc_cur_instruction s);
          val_reg_a = fpr s reg_a;
          val_reg_c = fpr s reg_c;
          s1 = (if isnan val_reg_a \<or> isnan val_reg_c
                then ppc_confirm_inf_nan MUL host reg_a reg_c s
                else s)
      in fp_retire
           (h_to_float host (host_round s1) (h_mul host (host_round s1) val_reg_a val_reg_c))
           s1)"

definition ppc_fmadds :: "host_fpu \<Rightarrow> 'm ppc_state \<Rightarrow> 'm ppc_state" where
  "ppc_fmadds host s =
     (let s1 = fma_checks ADD host s;
          val_reg_a = fpr s (REG_A (ppc_cur_instruction s));
          val_reg_b = fpr s (REG_B (ppc_cur_instruction s));
          val_reg_c = fpr s (REG_C (ppc_cur_instruction s))
      in fp_retire
           (h_to_float host (host_round s1)
              (h_fma host (host_round s1) val_reg_a val_reg_c val_reg_b)) s1)"

definition ppc_fmsubs :: "host_fpu \<Rightarrow> 'm ppc_state \<Rightarrow> 'm ppc_state" where
  "ppc_fmsubs host s =
     (let s1 = fma_checks SUB host s;
          val_reg_a = fpr s (REG_A (ppc_cur_instruction s));
          val_reg_b = fpr s (REG_B (ppc_cur_instruction s));
          val_reg_c = fpr s (REG_C (ppc_cur_instruction s))
      in fp_retire
           (h_to_float host (host_round s1)
              (h_fma host (host_round s1) val_reg_a val_reg_c (dbl_neg val_reg_b))) s1)"

definition ppc_fnmadds :: "host_fpu \<Rightarrow> 'm ppc_state \<Rightarrow> 'm ppc_state" where
  "ppc_fnmadds host s =
     (let s1 = fma_checks ADD host s;
          val_reg_a = fpr s (REG_A (ppc_cur_instruction s));
          val_reg_b = fpr s (REG_B (ppc_cur_instruction s));
          val_reg_c = fpr s (REG_C (ppc_cur_instruction s))
      in fp_retire
           (dbl_neg (h_to_float host (host_round s1)
              (h_fma host (host_round s1) val_reg_a val_reg_c val_reg_b))) s1)"

definition ppc_fnmsubs :: "host_fpu \<Rightarrow> 'm ppc_state \<Rightarrow> 'm ppc_state" where
  "ppc_fnmsubs host s =
     (let s1 = fma_checks SUB host s;
          val_reg_a = fpr s (REG_A (ppc_cur_instruction s));
          val_reg_b = fpr s (REG_B (ppc_cur_instruction s));
          val_reg_c = fpr s (REG_C (ppc_cur_instruction s))
      in fp_retire
           (h_to_float host (host_round s1)
              (h_fma host (host_round s1) (dbl_neg val_reg_a) val_reg_c val_reg_b)) s1)"

definition ppc_fsel :: "'m ppc_state \<Rightarrow> 'm ppc_state" where
  "ppc_fsel s =
     (let reg_d = REG_D (ppc_cur_instruction s);
          val_reg_a = fpr s (REG_A (ppc_cur_instruction s));
          val_reg_b = fpr s (REG_B (ppc_cur_instruction s));
          val_reg_c = fpr s (REG_C (ppc_cur_instruction s));
          ppc_dblresult64_d = (if dbl_ge val_reg_a DBL_NEG_0 then val_reg_c else val_reg_b)
      in rc_update (store_fpresult reg_d ppc_dblresult64_d s))"

definition ppc_fres :: "host_fpu \<Rightarrow> 'm ppc_state \<Rightarrow> 'm ppc_state" where
  "ppc_fres host s =
     (let reg_d = REG_D (ppc_cur_instruction s);
          reg_b = REG_B (ppc_cur_instruction s);
          start_num = fpr s reg_b;
          ppc_dblresult64_d =
            h_to_float host (host_round s) (h_div host (host_round s) DBL_1 start_num);
          s1 = store_fpresult reg_d ppc_dblresult64_d s;
          s2 = (if dbl_eq start_num DBL_0 then fpscr_set FPSCR_ZX s1
                else if isnan start_num then fpscr_set FPSCR_VXSNAN s1
                else if isinf start_num
                then fpscr_set FPSCR_VXSNAN (fpscr_and 0xFFF9FFFF s1)
                else s1)
      in rc_update s2)"

subsection \<open>Conversion to integer\<close>

definition round_to_nearest :: "host_fpu \<Rightarrow> host_rounding \<Rightarrow> u64 \<Rightarrow> u32" where
  "round_to_nearest host rm f = ucast (h_to_int64 host (h_floor host (h_add host rm f DBL_HALF)))"

definition round_to_zero :: "host_fpu \<Rightarrow> u64 \<Rightarrow> u32" where
  "round_to_zero host f = h_to_int32 host (h_trunc host f)"

definition round_to_pos_inf :: "host_fpu \<Rightarrow> u64 \<Rightarrow> u32" where
  "round_to_pos_inf host f = h_to_int32 host (h_ceil host f)"

definition round_to_neg_inf :: "host_fpu \<Rightarrow> u64 \<Rightarrow> u32" where
  "round_to_neg_inf host f = h_to_int32 host (h_floor host f)"

definition round_to_int :: "host_fpu \<Rightarrow> u8 \<Rightarrow> 'm ppc_state \<Rightarrow> 'm ppc_state" where
  "round_to_int host mode s =
     (let reg_d = REG_D (ppc_cur_instruction s);
          reg_b = REG_B (ppc_cur_instruction s);
          val_reg_b = fpr s reg_b
      in rc_update
       (if isnan val_reg_b then
          (let s1 = fpscr_and (NOT (FPSCR_FR OR FPSCR_FI)) s;
               s2 = fpscr_set (FPSCR_VXCVI OR FPSCR_VX) s1;
               s3 = (if fpr s2 reg_b AND 0x0008000000000000 = 0
                     then fpscr_set FPSCR_VXSNAN s2 else s2)
           in if fpscr s3 AND FPSCR_VE \<noteq> 0
              then ppc_floating_point_exception (fpscr_set FPSCR_FEX s3)
              else store_fpresult reg_d 0xFFF8000080000000 s3)
        else if dbl_gt val_reg_b DBL_INT32_MAX \<or> dbl_lt val_reg_b DBL_INT32_MIN then
          (let s1 = fpscr_and (NOT (FPSCR_FR OR FPSCR_FI)) s;
               s2 = fpscr_set (FPSCR_VXCVI OR FPSCR_VX) s1
           in if fpscr s2 AND FPSCR_VE \<noteq> 0
              then ppc_floating_point_exception (fpscr_set FPSCR_FEX s2)
              else if dbl_ge val_reg_b DBL_0
              then store_fpresult reg_d 0xFFF800007FFFFFFF s2
              else store_fpresult reg_d 0xFFF8000080000000 s2)
        else
          (let m = mode AND 0x3;
               ppc_result64_d =
                 (if m = 0 then ucast (round_to_nearest host (host_round s) val_reg_b)
                  else if m = 1 then ucast (round_to_zero host val_reg_b)
                  else if m = 2 then ucast (round_to_pos_inf host val_reg_b)
                  else ucast (round_to_neg_inf host val_reg_b) :: u64)
           in store_fpresult reg_d (ppc_result64_d OR 0xFFF8000000000000) s)))"

definition ppc_fctiw :: "host_fpu \<Rightarrow> 'm ppc_state \<Rightarrow> 'm ppc_state" where
  "ppc_fctiw host s = round_to_int host (ucast (fpscr s AND 0x3)) s"

definition ppc_fctiwz :: "host_fpu \<Rightarrow> 'm ppc_state \<Rightarrow> 'm ppc_state" where
  "ppc_fctiwz host s = round_to_int host 1 s"

subsection \<open>Floating-point loads and stores with update\<close>

definition ppc_lfsu :: "'m mmu \<Rightarrow> host_fpu \<Rightarrow> 'm ppc_state \<Rightarrow> 'm ppc_state" where
  "ppc_lfsu mu host s =
     (let reg_d = REG_D (ppc_cur_instruction s);
          reg_a = REG_A (ppc_cur_instruction s);
          val_reg_a = gpr s reg_a
      in if reg_a \<noteq> 0 then
           (let ea = DISP (ppc_cur_instruction s) + (if reg_a \<noteq> 0 then val_reg_a else 0);
                (result, m') = mmu_read_u32 mu (mem s) ea
            in s\<lparr>ppc_effective_address := ea, mem := m',
                 fpr := (fpr s)(reg_d := h_float_bits_to_double host result),
                 gpr := (gpr s)(reg_a := ea)\<rparr>)
         else ppc_exception_handler EXC_PROGRAM ILLEGAL_OP s)"

definition ppc_lfsux :: "'m mmu \<Rightarrow> host_fpu \<Rightarrow> 'm ppc_state \<Rightarrow> 'm ppc_state" where
  "ppc_lfsux mu host s =
     (let reg_d = REG_D (ppc_cur_instruction s);
          reg_a = REG_A (ppc_cur_instruction s);
          reg_b = REG_B (ppc_cur_instruction s);
          val_reg_a = gpr s reg_a;
          val_reg_b = gpr s reg_b
      in if reg_a \<noteq> 0 then
           (let ea = val_reg_a + val_reg_b;
                (result, m') = mmu_read_u32 mu (mem s) ea
            in s\<lparr>ppc_effective_address := ea, mem := m',
                 fpr := (fpr s)(reg_d := h_float_bits_to_double host result),
                 gpr := (gpr s)(reg_a := ea)\<rparr>)
         else ppc_exception_handler EXC_PROGRAM ILLEGAL_OP s)"

definition ppc_lfdu :: "'m mmu \<Rightarrow> 'm ppc_state \<Rightarrow> 'm ppc_state" where
  "ppc_lfdu mu s =
     (let reg_d = REG_D (ppc_cur_instruction s);
          reg_a = REG_A (ppc_cur_instruction s);
          val_reg_a = gpr s reg_a
      in if reg_a \<noteq> 0 then
           (let ea = DISP (ppc_cur_instruction s) + val_reg_a;
                (ppc_result64_d, m') = mmu_read_u64 mu (mem s) ea
            in s\<lparr>ppc_effective_address := ea, mem := m',
                 fpr := (fpr s)(reg_d := ppc_result64_d),
                 gpr := (gpr s)(reg_a := ea)\<rparr>)
         else ppc_exception_handler EXC_PROGRAM ILLEGAL_OP s)"

definition ppc_lfdux :: "'m mmu \<Rightarrow> 'm ppc_state \<Rightarrow> 'm ppc_state" where
  "ppc_lfdux mu s =
     (let reg_d = REG_D (ppc_cur_instruction s);
          reg_a = REG_A (ppc_cur_instruction s);
          reg_b = REG_B (ppc_cur_instruction s);
          val_reg_a = gpr s reg_a;
          val_reg_b = gpr s reg_b
      in if reg_a \<noteq> 0 then
           (let ea = val_reg_a + val_reg_b;
                (ppc_result64_d, m') = mmu_read_u64 mu (mem s) ea
            in s\<lparr>ppc_effective_address := ea, mem := m',
                 fpr := (fpr s)(reg_d := ppc_result64_d),
                 gpr := (gpr s)(reg_a := ea)\<rparr>)
         else ppc_exception_handler EXC_PROGRAM ILLEGAL_OP s)"

definition ppc_stfsu :: "'m mmu \<Rightarrow> host_fpu \<Rightarrow> 'm ppc_state \<Rightarrow> 'm ppc_state" where
  "ppc_stfsu mu host s =
     (let reg_s = REG_D (ppc_cur_instruction s);
          reg_a = REG_A (ppc_cur_instruction s);
          val_reg_a = gpr s reg_a
      in if reg_a \<noteq> 0 then
           (let ea = DISP (ppc_cur_instruction s) + val_reg_a;
                result = h_double_to_float_bits host (host_round s) (fpr s reg_s)
            in s\<lparr>ppc_effective_address := ea,
                 mem := mmu_write_u32 mu (mem s) ea result,
                 gpr := (gpr s)(reg_a := ea)\<rparr>)
         else ppc_exception_handler EXC_PROGRAM ILLEGAL_OP s)"

definition ppc_stfsux :: "'m mmu \<Rightarrow> host_fpu \<Rightarrow> 'm ppc_state \<Rightarrow> 'm ppc_state" where
  "ppc_stfsux mu host s =
     (let reg_s = REG_D (ppc_cur_instruction s);
          reg_a = REG_A (ppc_cur_instruction s);
          reg_b = REG_B (ppc_cur_instruction s);
          val_reg_a = gpr s reg_a;
          val_reg_b = gpr s reg_b
      in if reg_a \<noteq> 0 then
           (let ea = val_reg_a + val_reg_b;
                result = h_double_to_float_bits host (host_round s) (fpr s reg_s)
            in s\<lparr>ppc_effective_address := ea,
                 mem := mmu_write_u32 mu (mem s) ea result,
                 gpr := (gpr s)(reg_a := ea)\<rparr>)
         else ppc_exception_handler EXC_PROGRAM ILLEGAL_OP s)"

definition ppc_stfdu :: "'m mmu \<Rightarrow> 'm ppc_state \<Rightarrow> 'm ppc_state" where
  "ppc_stfdu mu s =
     (let reg_s = REG_D (ppc_cur_instruction s);
          reg_a = REG_A (ppc_cur_instruction s);
          val_reg_a = gpr s reg_a
      in if reg_a \<noteq> 0 then
           (let ea = DISP (ppc_cur_instruction s) + val_reg_a
            in s\<lparr>ppc_effective_address := ea,
                 mem := mmu_write_u64 mu (mem s) ea (fpr s reg_s),
                 gpr := (gpr s)(reg_a := ea)\<rparr>)
         else ppc_exception_handler EXC_PROGRAM ILLEGAL_OP s)"

definition ppc_stfdux :: "'m mmu \<Rightarrow> 'm ppc_state \<Rightarrow> 'm ppc_state" where
  "ppc_stfdux mu s =
     (let reg_s = REG_D (ppc_cur_instruction s);
          reg_a = REG_A (ppc_cur_instruction s);
          reg_b = REG_B (ppc_cur_instruction s);
          val_reg_a = gpr s reg_a;
          val_reg_b = gpr s reg_b
      in if reg_a \<noteq> 0 then
           (let ea = val_reg_a + val_reg_b
            in s\<lparr>ppc_effective_address := ea,
                 mem := mmu_write_u64 mu (mem s) ea (fpr s reg_s),
                 gpr := (gpr s)(reg_a := ea)\<rparr>)
         else ppc_exception_handler EXC_PROGRAM ILLEGAL_OP s)"

subsection \<open>Moves to the FPSCR\<close>

definition mtfsf_cr_mask :: "u8 \<Rightarrow> u32" where
  "mtfsf_cr_mask fm =
     (if fm = 0xFF then 0xFFFFFFFF
      else (if fm AND 0x80 \<noteq> 0 then 0xF0000000 else 0)
        OR (if fm AND 0x40 \<noteq> 0 then 0x0F000000 else 0)
        OR (if fm AND 0x20 \<noteq> 0 then 0x00F00000 else 0)
        OR (if fm AND 0x10 \<noteq> 0 then 0x000F0000 else 0)
        OR (if fm AND 0x08 \<noteq> 0 then 0x0000F000 else 0)
        OR (if fm AND 0x04 \<noteq> 0 then 0x00000F00 else 0)
        OR (if fm AND 0x02 \<noteq> 0 then 0x000000F0 else 0)
        OR (if fm AND 0x01 \<noteq> 0 then 0x0000000F else 0))"

definition ppc_mtfsf :: "'m ppc_state \<Rightarrow> 'm ppc_state" where
  "ppc_mtfsf s =
     (let reg_b = unat (drop_bit 11 (ppc_cur_instruction s) AND 0x1F);
          fm = (ucast (drop_bit 17 (ppc_cur_instruction s) AND 0xFF) :: u8);
          cr_mask = mtfsf_cr_mask fm AND NOT (FPSCR_FEX OR FPSCR_VX)
      in rc_update
           (s\<lparr>fpscr := (fpscr s AND NOT cr_mask) OR (ucast (fpr s reg_b) AND cr_mask)\<rparr>))"

definition ppc_mtfsfi :: "'m ppc_state \<Rightarrow> 'm ppc_state" where
  "ppc_mtfsfi s =
     (let crf_d = CRF_D (ppc_cur_instruction s);
          imm = push_bit 16 (ppc_cur_instruction s) AND 0xF0000000;
          mask = drop_bit crf_d 0xF0000000 AND NOT (FPSCR_FEX OR FPSCR_VX)
      in rc_update
           (s\<lparr>fpscr := (fpscr s AND NOT mask) OR (drop_bit crf_d imm AND mask)\<rparr>))"

definition ppc_mtfsb0 :: "'m ppc_state \<Rightarrow> 'm ppc_state" where
  "ppc_mtfsb0 s =
     (let crf_d = unat (drop_bit 21 (ppc_cur_instruction s) AND 0x1F)
      in rc_update
           (if crf_d = 0 \<or> 2 < crf_d
            then s\<lparr>fpscr := fpscr s AND NOT (drop_bit crf_d 0x80000000)\<rparr>
            else s))"

definition ppc_mtfsb1 :: "'m ppc_state \<Rightarrow> 'm ppc_state" where
  "ppc_mtfsb1 s =
     (let crf_d = unat (drop_bit 21 (ppc_cur_instruction s) AND 0x1F)
      in rc_update
           (if crf_d = 0 \<or> 2 < crf_d
            then s\<lparr>fpscr := fpscr s OR drop_bit crf_d 0x80000000\<rparr>
            else s))"

subsection \<open>Floating-point comparisons\<close>

definition fp_compare :: "u64 \<Rightarrow> u64 \<Rightarrow> u32" where
  "fp_compare db_test_a db_test_b =
     (if isnan db_test_a \<or> isnan db_test_b then CR_SO
      else if dbl_lt db_test_a db_test_b then CR_LT
      else if dbl_gt db_test_a db_test_b then CR_GT
      else CR_EQ)"

definition ppc_fcmpo :: "'m ppc_state \<Rightarrow> 'm ppc_state" where
  "ppc_fcmpo s =
     (let crf_d = CRF_D (ppc_cur_instruction s);
          db_test_a = fpr s (REG_A (ppc_cur_instruction s));
          db_test_b = fpr s (REG_B (ppc_cur_instruction s));
          cmp_c = fp_compare db_test_a db_test_b
      in s\<lparr>fpscr := (fpscr s AND NOT FPSCR_FPCC_MASK) OR drop_bit 16 cmp_c,
           cr := (cr s AND NOT (drop_bit crf_d 0xF0000000)) OR drop_bit crf_d cmp_c\<rparr>)"

definition ppc_fcmpu :: "'m ppc_state \<Rightarrow> 'm ppc_state" where
  "ppc_fcmpu s =
     (let crf_d = CRF_D (ppc_cur_instruction s);
          db_test_a = fpr s (REG_A (ppc_cur_instruction s));
          db_test_b = fpr s (REG_B (ppc_cur_instruction s));
          cmp_c = fp_compare db_test_a db_test_b
      in s\<lparr>fpscr := (fpscr s AND NOT FPSCR_FPCC_MASK) OR drop_bit 16 cmp_c,
           cr := (cr s AND NOT (drop_bit crf_d 0xF0000000)) OR drop_bit crf_d cmp_c\<rparr>)"

subsection \<open>The spec's words, and example inputs\<close>

text \<open>
  ``FEX is the OR of enabled exception summaries'': each of the five exception
  summary bits VX, OX, UX, ZX, XX taken with its enable bit VE, OE, UE, ZE, XE.
  \<open>fex_invariant\<close> says that the FEX bit of an FPSCR value has that value.
\<close>

definition fex_spec :: "u32 \<Rightarrow> bool" where
  "fex_spec f =
     ((f AND FPSCR_VX \<noteq> 0 \<and> f AND FPSCR_VE \<noteq> 0) \<or>
      (f AND FPSCR_OX \<noteq> 0 \<and> f AND FPSCR_OE \<noteq> 0) \<or>
      (f AND FPSCR_UX \<noteq> 0 \<and> f AND FPSCR_UE \<noteq> 0) \<or>
      (f AND FPSCR_ZX \<noteq> 0 \<and> f AND FPSCR_ZE \<noteq> 0) \<or>
      (f AND FPSCR_XX \<noteq> 0 \<and> f AND FPSCR_XE \<noteq> 0))"

definition fex_invariant :: "u32 \<Rightarrow> bool" where
  "fex_invariant f = ((f AND FPSCR_FEX \<noteq> 0) = fex_spec f)"

text \<open>
  ``FPSCR[RN]: 00 nearest-even, 01 toward-zero, 10 toward +infinity, 11 toward
  -infinity'': the host rounding mode an FPSCR value names.
\<close>

definition rn_mode :: "u32 \<Rightarrow> host_rounding" where
  "rn_mode f =
     (if f AND FPSCR_RN_MASK = 0 then FE_TONEAREST
      else if f AND FPSCR_RN_MASK = 1 then FE_TOWARDZERO
      else if f AND FPSCR_RN_MASK = 2 then FE_UPWARD
      else FE_DOWNWARD)"

text \<open>
  ``Derive FPCC from the result: QNaN gives FU; > 0 gives FG; < 0 gives FL; zero gives
  FE (positive/negative zero both set FE). For non-finite results, also set FU.''
\<close>

definition fpcc_of :: "u64 \<Rightarrow> u32" where
  "fpcc_of r =
     (if isnan r then FPCC_FUNAN
      else (if dbl_gt r DBL_0 then FPCC_POS
            else if dbl_lt r DBL_0 then FPCC_NEG
            else FPCC_ZERO)
        OR (if isinf r then FPCC_FUNAN else 0))"

text \<open>
  A guest state with every register zero, on a memory unit whose state is the number
  of accesses made so far; the examples below set the fields they need.
\<close>

definition ppc_state_0 :: "nat ppc_state" where
  "ppc_state_0 =
     \<lparr>gpr = (\<lambda>_. 0), fpr = (\<lambda>_. 0), cr = 0, fpscr = 0, ppc_cur_instruction = 0,
      rc_flag = False, ppc_effective_address = 0, host_round = FE_TONEAREST,
      signalled = [], mem = 0\<rparr>"

definition counting_mmu :: "nat mmu" where
  "counting_mmu =
     \<lparr>mmu_read_u32 = (\<lambda>m a. (0, Suc m)), mmu_read_u64 = (\<lambda>m a. (0, Suc m)),
      mmu_write_u32 = (\<lambda>m a v. Suc m), mmu_write_u64 = (\<lambda>m a v. Suc m)\<rparr>"

section \<open>Theorems\<close>

text \<open>
  C8 (as amended). In the register layout of the MacIO interrupt controllers the
  levels2 register is at offset 0x1C; offset 0x18 is the clear2 register. events2 is at
  0x10, mask2 at 0x14, events1 at 0x20, mask1 at 0x24 and levels1 at 0x2C.
\<close>

theorem mio_int_register_layout:
  "MIO_INT_LEVELS2 = 0x1C \<and> MIO_INT_CLEAR2 = 0x18 \<and>
   MIO_INT_EVENTS2 = 0x10 \<and> MIO_INT_MASK2 = 0x14 \<and>
   MIO_INT_EVENTS1 = 0x20 \<and> MIO_INT_MASK1 = 0x24 \<and> MIO_INT_LEVELS1 = 0x2C"
  by (simp add: MIO_INT_LEVELS2_def MIO_INT_CLEAR2_def MIO_INT_EVENTS2_def
      MIO_INT_MASK2_def MIO_INT_EVENTS1_def MIO_INT_MASK1_def MIO_INT_LEVELS1_def)

text \<open>
  C8 as stated puts levels2 at offset 0x18. The header does not: the offset of
  levels2 differs from 0x18.
\<close>

theorem mio_int_levels2_not_0x18:
  "MIO_INT_LEVELS2 \<noteq> 0x18"
  by (simp add: MIO_INT_LEVELS2_def)




subsection \<open>Bit-level facts\<close>

lemma top_bit_shifted:
  "bit (drop_bit n (0x80000000 :: u32)) k \<longleftrightarrow> k + n = 31"
proof -
  have e: "(0x80000000 :: u32) = push_bit 31 1" by simp
  show ?thesis
    apply (simp only: e bit_drop_bit_eq bit_push_bit_iff o_apply)
    apply (auto simp add: bit_1_iff possible_bit_word)
    done
qed

lemma fex_vx_bits: "bit (FPSCR_FEX OR FPSCR_VX) k \<longleftrightarrow> k = 30 \<or> k = 29"
proof -
  have e: "FPSCR_FEX OR FPSCR_VX = (push_bit 30 1 OR push_bit 29 1 :: u32)"
    by (simp add: FPSCR_defs)
  show ?thesis
    apply (simp only: e bit_or_iff bit_push_bit_iff)
    apply (auto simp add: bit_1_iff possible_bit_word)
    done
qed

lemma masked_copy_frame:
  fixes x y m k :: "'a::len word"
  shows "((x AND NOT (m AND NOT k)) OR (y AND (m AND NOT k))) AND k = x AND k"
  by (rule bit_eqI) (auto simp: bit_simps)

lemma clear_bit_frame:
  fixes K :: u32
  assumes K: "\<And>j. bit K j \<longleftrightarrow> j = 30 \<or> j = 29" and n: "n = 0 \<or> 2 < n"
  shows "(x AND NOT (drop_bit n (0x80000000 :: u32))) AND K = x AND K"
  apply (rule bit_eqI)
  apply (simp only: bit_and_iff bit_not_iff top_bit_shifted K)
  using n apply auto
  done

lemma set_bit_frame:
  fixes K :: u32
  assumes K: "\<And>j. bit K j \<longleftrightarrow> j = 30 \<or> j = 29" and n: "n = 0 \<or> 2 < n"
  shows "(x OR drop_bit n (0x80000000 :: u32)) AND K = x AND K"
  apply (rule bit_eqI)
  apply (simp only: bit_and_iff bit_or_iff top_bit_shifted K)
  using n apply auto
  done

lemma sign_split:
  fixes a :: u64
  assumes "a AND 0x8000000000000000 \<noteq> 0" and "a AND 0x7FFFFFFFFFFFFFFF = 0"
  shows "a = 0x8000000000000000"
proof -
  have m: "(0x7FFFFFFFFFFFFFFF :: u64) = mask 63"
    by (simp add: mask_eq_exp_minus_1)
  have p: "(0x8000000000000000 :: u64) = 2 ^ 63"
    by simp
  have low: "take_bit 63 a = 0"
    using assms(2) by (simp only: m take_bit_eq_mask)
  have top: "bit a 63"
    using assms(1) by (simp only: p and_exp_eq_0_iff_not_bit) simp
  have "a = 2 ^ 63"
  proof (rule bit_eqI)
    fix n
    assume "possible_bit TYPE(u64) n"
    then have n: "n < 64" by (simp add: possible_bit_word)
    have "n < 63 \<Longrightarrow> \<not> bit a n"
    proof
      assume "n < 63" and "bit a n"
      then have "bit (take_bit 63 a) n" by (simp add: bit_take_bit_iff)
      with low show False by simp
    qed
    with n top show "bit a n \<longleftrightarrow> bit (2 ^ 63 :: u64) n"
      apply (simp only: bit_exp_iff possible_bit_word)
      apply (cases "n = 63")
       apply auto
      done
  qed
  then show ?thesis by (simp only: p)
qed

subsection \<open>What the helpers leave alone\<close>

lemma rc_update_fpscr [simp]: "fpscr (rc_update s) = fpscr s"
  by (simp add: rc_update_def ppc_update_cr1_def)

lemma rc_update_fpr [simp]: "fpr (rc_update s) = fpr s"
  by (simp add: rc_update_def ppc_update_cr1_def)

lemma rc_update_signalled [simp]: "signalled (rc_update s) = signalled s"
  by (simp add: rc_update_def ppc_update_cr1_def)

lemma rc_update_host_round [simp]: "host_round (rc_update s) = host_round s"
  by (simp add: rc_update_def ppc_update_cr1_def)

subsection \<open>Update forms with rA = 0\<close>

text \<open>
  C1. For every floating-point load or store with update (lfsu, lfsux, lfdu, lfdux,
  stfsu, stfsux, stfdu, stfdux) whose rA field is 0, the handler signals an
  illegal-instruction program exception and changes nothing else: the state it
  returns is the state it was given with that one signal appended, so no FPR and no
  GPR is written and the memory unit's state is the one before (no access was made),
  whatever the memory unit and the host are.
\<close>

theorem fp_update_form_rA0_illegal:
  assumes "REG_A (ppc_cur_instruction s) = 0"
  shows
    "ppc_lfsu mu host s = s\<lparr>signalled := signalled s @ [PPC_EXCEPTION EXC_PROGRAM ILLEGAL_OP]\<rparr> \<and>
     ppc_lfsux mu host s = s\<lparr>signalled := signalled s @ [PPC_EXCEPTION EXC_PROGRAM ILLEGAL_OP]\<rparr> \<and>
     ppc_lfdu mu s = s\<lparr>signalled := signalled s @ [PPC_EXCEPTION EXC_PROGRAM ILLEGAL_OP]\<rparr> \<and>
     ppc_lfdux mu s = s\<lparr>signalled := signalled s @ [PPC_EXCEPTION EXC_PROGRAM ILLEGAL_OP]\<rparr> \<and>
     ppc_stfsu mu host s = s\<lparr>signalled := signalled s @ [PPC_EXCEPTION EXC_PROGRAM ILLEGAL_OP]\<rparr> \<and>
     ppc_stfsux mu host s = s\<lparr>signalled := signalled s @ [PPC_EXCEPTION EXC_PROGRAM ILLEGAL_OP]\<rparr> \<and>
     ppc_stfdu mu s = s\<lparr>signalled := signalled s @ [PPC_EXCEPTION EXC_PROGRAM ILLEGAL_OP]\<rparr> \<and>
     ppc_stfdux mu s = s\<lparr>signalled := signalled s @ [PPC_EXCEPTION EXC_PROGRAM ILLEGAL_OP]\<rparr>"
proof -
  have "ppc_lfsu mu host s = ppc_exception_handler EXC_PROGRAM ILLEGAL_OP s"
    using assms by (simp add: ppc_lfsu_def)
  moreover have "ppc_lfsux mu host s = ppc_exception_handler EXC_PROGRAM ILLEGAL_OP s"
    using assms by (simp add: ppc_lfsux_def)
  moreover have "ppc_lfdu mu s = ppc_exception_handler EXC_PROGRAM ILLEGAL_OP s"
    using assms by (simp add: ppc_lfdu_def)
  moreover have "ppc_lfdux mu s = ppc_exception_handler EXC_PROGRAM ILLEGAL_OP s"
    using assms by (simp add: ppc_lfdux_def)
  moreover have "ppc_stfsu mu host s = ppc_exception_handler EXC_PROGRAM ILLEGAL_OP s"
    using assms by (simp add: ppc_stfsu_def)
  moreover have "ppc_stfsux mu host s = ppc_exception_handler EXC_PROGRAM ILLEGAL_OP s"
    using assms by (simp add: ppc_stfsux_def)
  moreover have "ppc_stfdu mu s = ppc_exception_handler EXC_PROGRAM ILLEGAL_OP s"
    using assms by (simp add: ppc_stfdu_def)
  moreover have "ppc_stfdux mu s = ppc_exception_handler EXC_PROGRAM ILLEGAL_OP s"
    using assms by (simp add: ppc_stfdux_def)
  ultimately show ?thesis
    by (simp only: ppc_exception_handler_def)
qed

text \<open>
  The instruction word \<^verbatim>\<open>0xC4200004\<close> is \<^verbatim>\<open>lfsu f1, 4(r0)\<close> and
  \<^verbatim>\<open>0xDC200004\<close> is \<^verbatim>\<open>stfdu f1, 4(r0)\<close>: both have rA = 0. On the memory unit
  that counts its accesses the count stays 0.
\<close>

theorem fp_update_form_rA0_illegal_witness:
  "REG_A (ppc_cur_instruction (ppc_state_0\<lparr>ppc_cur_instruction := 0xC4200004\<rparr>)) = 0 \<and>
   (\<forall>host. ppc_lfsu counting_mmu host (ppc_state_0\<lparr>ppc_cur_instruction := 0xC4200004\<rparr>) =
      ppc_state_0\<lparr>ppc_cur_instruction := 0xC4200004,
        signalled := [PPC_EXCEPTION EXC_PROGRAM ILLEGAL_OP]\<rparr>) \<and>
   REG_A (ppc_cur_instruction (ppc_state_0\<lparr>ppc_cur_instruction := 0xDC200004\<rparr>)) = 0 \<and>
   mem (ppc_stfdu counting_mmu (ppc_state_0\<lparr>ppc_cur_instruction := 0xDC200004\<rparr>)) = 0"
proof -
  have a1: "REG_A (ppc_cur_instruction (ppc_state_0\<lparr>ppc_cur_instruction := 0xC4200004\<rparr>)) = 0"
    by (simp add: REG_A_def)
  have a2: "REG_A (ppc_cur_instruction (ppc_state_0\<lparr>ppc_cur_instruction := 0xDC200004\<rparr>)) = 0"
    by (simp add: REG_A_def)
  show ?thesis
    using a1 a2 fp_update_form_rA0_illegal [OF a1, of counting_mmu]
      fp_update_form_rA0_illegal [OF a2, of counting_mmu]
    by (simp add: ppc_state_0_def)
qed

text \<open>
  With rA not 0 the same handlers do go to memory: on the memory unit that counts its
  accesses, \<^verbatim>\<open>lfsu f1, 4(r3)\<close> (instruction word \<^verbatim>\<open>0xC4230004\<close>) makes one
  access, writes the effective address 4 back to r3 and raises nothing.
\<close>

lemma ppc_lfsu_rA3_accesses_memory:
  "mem (ppc_lfsu counting_mmu host (ppc_state_0\<lparr>ppc_cur_instruction := 0xC4230004\<rparr>)) = 1 \<and>
   gpr (ppc_lfsu counting_mmu host (ppc_state_0\<lparr>ppc_cur_instruction := 0xC4230004\<rparr>)) 3 = 4 \<and>
   signalled (ppc_lfsu counting_mmu host (ppc_state_0\<lparr>ppc_cur_instruction := 0xC4230004\<rparr>))
     = []"
  by (simp add: ppc_lfsu_def Let_def ppc_state_0_def counting_mmu_def REG_A_def REG_D_def
      DISP_def)

subsection \<open>fsel\<close>

lemma not_nan_neg0: "\<not> isnan 0x8000000000000000"
  by (simp add: isnan_def)

lemma dbl_ge_neg0_iff:
  "dbl_ge a DBL_NEG_0 \<longleftrightarrow> \<not> isnan a \<and> (a AND 0x8000000000000000 = 0 \<or> a = DBL_NEG_0)"
  using sign_split [of a]
  by (auto simp: dbl_ge_def not_nan_neg0 dbl_key_def DBL_NEG_0_def uint_0_iff)

text \<open>
  C5. For all operands, NaNs included, \<^verbatim>\<open>fsel\<close> writes frC to frD when
  frA >= -0.0 and frB otherwise, and writes no other FPR. The comparison is true exactly
  when frA is not a NaN and is either non-negative (sign bit clear) or minus zero, so a
  NaN in frA selects frB. The handler raises nothing and leaves the FPSCR as it was, so
  no VX cause bit is set.
\<close>

theorem ppc_fsel_selects_and_never_faults:
  "fpr (ppc_fsel s) =
     (fpr s)(REG_D (ppc_cur_instruction s) :=
        (if dbl_ge (fpr s (REG_A (ppc_cur_instruction s))) DBL_NEG_0
         then fpr s (REG_C (ppc_cur_instruction s))
         else fpr s (REG_B (ppc_cur_instruction s)))) \<and>
   dbl_ge (fpr s (REG_A (ppc_cur_instruction s))) DBL_NEG_0 =
     (\<not> isnan (fpr s (REG_A (ppc_cur_instruction s))) \<and>
      (fpr s (REG_A (ppc_cur_instruction s)) AND 0x8000000000000000 = 0 \<or>
       fpr s (REG_A (ppc_cur_instruction s)) = DBL_NEG_0)) \<and>
   fpscr (ppc_fsel s) = fpscr s \<and>
   signalled (ppc_fsel s) = signalled s \<and>
   gpr (ppc_fsel s) = gpr s \<and>
   mem (ppc_fsel s) = mem s"
proof -
  have "fpr (ppc_fsel s) =
     (fpr s)(REG_D (ppc_cur_instruction s) :=
        (if dbl_ge (fpr s (REG_A (ppc_cur_instruction s))) DBL_NEG_0
         then fpr s (REG_C (ppc_cur_instruction s))
         else fpr s (REG_B (ppc_cur_instruction s))))"
    by (simp add: ppc_fsel_def Let_def store_fpresult_def)
  moreover have "fpscr (ppc_fsel s) = fpscr s \<and> signalled (ppc_fsel s) = signalled s \<and>
      gpr (ppc_fsel s) = gpr s \<and> mem (ppc_fsel s) = mem s"
    by (simp add: ppc_fsel_def Let_def store_fpresult_def rc_update_def ppc_update_cr1_def)
  ultimately show ?thesis
    using dbl_ge_neg0_iff [of "fpr s (REG_A (ppc_cur_instruction s))"] by simp
qed

text \<open>
  \<^verbatim>\<open>fsel f1, f2, f4, f3\<close> (instruction word \<^verbatim>\<open>0xFC22192E\<close>: frA = f2,
  frB = f3, frC = f4) with f3 = 1.0 and f4 = 2.0: a quiet NaN in f2 selects f3, minus
  zero in f2 selects f4.
\<close>

lemma ppc_fsel_examples:
  "fpr (ppc_fsel (ppc_state_0\<lparr>ppc_cur_instruction := 0xFC22192E,
      fpr := (\<lambda>_. 0)(2 := 0x7FF8000000000000, 3 := DBL_1, 4 := 0x4000000000000000)\<rparr>)) 1
     = DBL_1 \<and>
   fpr (ppc_fsel (ppc_state_0\<lparr>ppc_cur_instruction := 0xFC22192E,
      fpr := (\<lambda>_. 0)(2 := DBL_NEG_0, 3 := DBL_1, 4 := 0x4000000000000000)\<rparr>)) 1
     = 0x4000000000000000"
  by (simp add: ppc_fsel_def Let_def ppc_state_0_def store_fpresult_def REG_A_def REG_B_def
      REG_C_def REG_D_def dbl_ge_def isnan_def dbl_key_def DBL_defs)

subsection \<open>Moves to the FPSCR keep FEX and VX\<close>

lemma ppc_mtfsf_keeps_fex_vx:
  "fpscr (ppc_mtfsf s) AND (FPSCR_FEX OR FPSCR_VX) = fpscr s AND (FPSCR_FEX OR FPSCR_VX)"
proof -
  define m where "m = mtfsf_cr_mask (ucast (drop_bit 17 (ppc_cur_instruction s) AND 0xFF))"
  define y :: u32 where
    "y = ucast (fpr s (unat (drop_bit 11 (ppc_cur_instruction s) AND 0x1F)))"
  have "fpscr (ppc_mtfsf s) =
      (fpscr s AND NOT (m AND NOT (FPSCR_FEX OR FPSCR_VX))) OR
      (y AND (m AND NOT (FPSCR_FEX OR FPSCR_VX)))"
    by (simp add: ppc_mtfsf_def Let_def m_def y_def)
  then show ?thesis
    by (simp only: masked_copy_frame)
qed

lemma ppc_mtfsfi_keeps_fex_vx:
  "fpscr (ppc_mtfsfi s) AND (FPSCR_FEX OR FPSCR_VX) = fpscr s AND (FPSCR_FEX OR FPSCR_VX)"
proof -
  define m :: u32 where "m = drop_bit (CRF_D (ppc_cur_instruction s)) 0xF0000000"
  define y :: u32 where
    "y = drop_bit (CRF_D (ppc_cur_instruction s))
           (push_bit 16 (ppc_cur_instruction s) AND 0xF0000000)"
  have "fpscr (ppc_mtfsfi s) =
      (fpscr s AND NOT (m AND NOT (FPSCR_FEX OR FPSCR_VX))) OR
      (y AND (m AND NOT (FPSCR_FEX OR FPSCR_VX)))"
    by (simp add: ppc_mtfsfi_def Let_def m_def y_def)
  then show ?thesis
    by (simp only: masked_copy_frame)
qed

lemma ppc_mtfsb0_keeps_fex_vx:
  "fpscr (ppc_mtfsb0 s) AND (FPSCR_FEX OR FPSCR_VX) = fpscr s AND (FPSCR_FEX OR FPSCR_VX)"
  using clear_bit_frame [OF fex_vx_bits,
      of "unat (drop_bit 21 (ppc_cur_instruction s) AND 0x1F)" "fpscr s"]
  by (simp add: ppc_mtfsb0_def Let_def)

lemma ppc_mtfsb1_keeps_fex_vx:
  "fpscr (ppc_mtfsb1 s) AND (FPSCR_FEX OR FPSCR_VX) = fpscr s AND (FPSCR_FEX OR FPSCR_VX)"
  using set_bit_frame [OF fex_vx_bits,
      of "unat (drop_bit 21 (ppc_cur_instruction s) AND 0x1F)" "fpscr s"]
  by (simp add: ppc_mtfsb1_def Let_def)

text \<open>
  C10. \<^verbatim>\<open>mtfsf\<close>, \<^verbatim>\<open>mtfsfi\<close>, \<^verbatim>\<open>mtfsb0\<close> and \<^verbatim>\<open>mtfsb1\<close> never change
  FPSCR[FEX] or FPSCR[VX]: for every instruction word (so every field mask, immediate
  and bit index), every source register value and every state, the FEX and VX bits of
  the FPSCR after the instruction are the ones before it.
\<close>

theorem fpscr_moves_keep_fex_vx:
  "fpscr (ppc_mtfsf s) AND (FPSCR_FEX OR FPSCR_VX) = fpscr s AND (FPSCR_FEX OR FPSCR_VX) \<and>
   fpscr (ppc_mtfsfi s) AND (FPSCR_FEX OR FPSCR_VX) = fpscr s AND (FPSCR_FEX OR FPSCR_VX) \<and>
   fpscr (ppc_mtfsb0 s) AND (FPSCR_FEX OR FPSCR_VX) = fpscr s AND (FPSCR_FEX OR FPSCR_VX) \<and>
   fpscr (ppc_mtfsb1 s) AND (FPSCR_FEX OR FPSCR_VX) = fpscr s AND (FPSCR_FEX OR FPSCR_VX)"
  using ppc_mtfsf_keeps_fex_vx [of s] ppc_mtfsfi_keeps_fex_vx [of s]
    ppc_mtfsb0_keeps_fex_vx [of s] ppc_mtfsb1_keeps_fex_vx [of s]
  by (intro conjI)

subsection \<open>fctiwz on an operand out of range\<close>

text \<open>
  C2, at the input of the spec's scenario S2: \<^verbatim>\<open>fctiwz f1, f2\<close> (instruction word
  \<^verbatim>\<open>0xFC20101E\<close>) with f2 = 3.0e10 (bit pattern \<^verbatim>\<open>0x421BF08EB0000000\<close>) and an
  FPSCR of 0, so that the invalid-operation exception is disabled. On every host the
  handler writes \<^verbatim>\<open>0xFFF800007FFFFFFF\<close> to f1 and sets VX and VXCVI, and nothing
  else: FX, which the claim says is set, stays clear.
\<close>

theorem ppc_fctiwz_overflow_leaves_fx_clear:
  "fpr (ppc_fctiwz host
      (ppc_state_0\<lparr>ppc_cur_instruction := 0xFC20101E,
         fpr := (\<lambda>_. 0)(2 := 0x421BF08EB0000000)\<rparr>)) 1 = 0xFFF800007FFFFFFF \<and>
   fpscr (ppc_fctiwz host
      (ppc_state_0\<lparr>ppc_cur_instruction := 0xFC20101E,
         fpr := (\<lambda>_. 0)(2 := 0x421BF08EB0000000)\<rparr>)) = FPSCR_VX OR FPSCR_VXCVI \<and>
   fpscr (ppc_fctiwz host
      (ppc_state_0\<lparr>ppc_cur_instruction := 0xFC20101E,
         fpr := (\<lambda>_. 0)(2 := 0x421BF08EB0000000)\<rparr>)) AND FPSCR_FX = 0"
  by (simp add: ppc_fctiwz_def round_to_int_def Let_def ppc_state_0_def REG_D_def REG_B_def
      isnan_def dbl_gt_def dbl_lt_def dbl_ge_def dbl_key_def DBL_defs FPSCR_defs
      fpscr_and_def fpscr_set_def store_fpresult_def rc_update_def)

subsection \<open>fres and FEX\<close>

text \<open>
  C3, at \<^verbatim>\<open>fres f1, f2\<close> (instruction word \<^verbatim>\<open>0xEC201030\<close>) with f2 = +0.0 and
  an FPSCR in which only the zero-divide enable ZE is set. Before the instruction FEX is
  the OR of the enabled exception summaries (both are 0). The handler sets ZX and
  retires: ZX and ZE are now both set, FEX is still 0, and the equality is broken.
\<close>

theorem ppc_fres_breaks_fex_invariant:
  "fex_invariant (fpscr (ppc_state_0\<lparr>ppc_cur_instruction := 0xEC201030, fpscr := FPSCR_ZE\<rparr>)) \<and>
   fpscr (ppc_fres host (ppc_state_0\<lparr>ppc_cur_instruction := 0xEC201030, fpscr := FPSCR_ZE\<rparr>))
     = FPSCR_ZX OR FPSCR_ZE \<and>
   \<not> fex_invariant
       (fpscr (ppc_fres host (ppc_state_0\<lparr>ppc_cur_instruction := 0xEC201030, fpscr := FPSCR_ZE\<rparr>)))"
  by (simp add: ppc_fres_def Let_def ppc_state_0_def REG_D_def REG_B_def
      isnan_def isinf_def dbl_eq_def dbl_key_def DBL_defs FPSCR_defs
      fpscr_and_def fpscr_set_def store_fpresult_def fex_invariant_def fex_spec_def)

subsection \<open>FPCC after an arithmetic instruction\<close>

text \<open>
  \<^verbatim>\<open>fpresult_update\<close> only ORs bits into the FPSCR: the FPCC it leaves is the FPCC
  it found together with the bits the spec derives from the result.
\<close>

lemma fpresult_update_fpcc:
  "fpscr (fpresult_update r s) AND FPSCR_FPCC_MASK = (fpscr s AND FPSCR_FPCC_MASK) OR fpcc_of r"
proof -
  have step: "(f OR b) AND FPSCR_FPCC_MASK = (f AND FPSCR_FPCC_MASK) OR (b AND FPSCR_FPCC_MASK)"
    for f b :: u32
    by (rule bit.conj_disj_distrib2)
  have cs:
    "FPRCD AND FPSCR_FPCC_MASK = 0"
    "FPCC_FUNAN AND FPSCR_FPCC_MASK = FPCC_FUNAN"
    "FPCC_POS AND FPSCR_FPCC_MASK = FPCC_POS"
    "FPCC_NEG AND FPSCR_FPCC_MASK = FPCC_NEG"
    "FPCC_ZERO AND FPSCR_FPCC_MASK = FPCC_ZERO"
    by (simp_all add: FPSCR_defs)
  show ?thesis
    by (simp add: fpresult_update_def fpcc_of_def fpscr_set_def Let_def step cs or.assoc)
qed

lemma fpcc_of_neg1: "fpcc_of DBL_NEG_1 = FPCC_NEG"
  by (simp add: fpcc_of_def isnan_def isinf_def dbl_gt_def dbl_lt_def dbl_key_def DBL_defs)

text \<open>
  C4, at \<^verbatim>\<open>fadd f1, f2, f3\<close> (instruction word \<^verbatim>\<open>0xFC22182A\<close>) with f2 = 1.0,
  f3 = -2.0 (bit pattern \<^verbatim>\<open>0xC000000000000000\<close>) and an FPSCR whose FPCC holds FG,
  as an earlier positive result leaves it. The handler does not clear FPCC: afterwards
  FPCC is FG together with the bits derived from the host's sum. The sum is -1.0, whose
  bit is FL, so FL and FG are both set.
\<close>

theorem ppc_fadd_keeps_stale_fpcc:
  "fpscr (ppc_fadd host
      (ppc_state_0\<lparr>ppc_cur_instruction := 0xFC22182A, fpscr := FPCC_POS,
         fpr := (\<lambda>_. 0)(2 := DBL_1, 3 := 0xC000000000000000)\<rparr>)) AND FPSCR_FPCC_MASK
     = FPCC_POS OR fpcc_of (h_add host FE_TONEAREST DBL_1 0xC000000000000000) \<and>
   fpcc_of DBL_NEG_1 = FPCC_NEG"
proof -
  have nan: "\<not> isnan DBL_1" "\<not> isnan 0xC000000000000000"
    by (simp_all add: isnan_def DBL_defs)
  have m: "FPCC_POS AND FPSCR_FPCC_MASK = FPCC_POS"
    by (simp add: FPSCR_defs)
  show ?thesis
    by (simp add: ppc_fadd_def fp_retire_def Let_def ppc_state_0_def REG_D_def REG_A_def
        REG_B_def nan fpresult_update_fpcc store_fpresult_def m fpcc_of_neg1)
qed

subsection \<open>fcmpo on a NaN\<close>

text \<open>
  C6, at \<^verbatim>\<open>fcmpo cr0, f1, f2\<close> (instruction word \<^verbatim>\<open>0xFC011040\<close>) with f1 a quiet
  NaN (bit pattern \<^verbatim>\<open>0x7FF8000000000000\<close>), f2 = 1.0 and FPSCR and CR both 0. FPCC
  and CR0 record the unordered outcome (FU and SO), and that is all the handler
  writes: FX and VXVC stay clear.
\<close>

theorem ppc_fcmpo_nan_sets_no_exception_bit:
  "fpscr (ppc_fcmpo
      (ppc_state_0\<lparr>ppc_cur_instruction := 0xFC011040,
         fpr := (\<lambda>_. 0)(1 := 0x7FF8000000000000, 2 := DBL_1)\<rparr>)) = FPCC_FUNAN \<and>
   cr (ppc_fcmpo
      (ppc_state_0\<lparr>ppc_cur_instruction := 0xFC011040,
         fpr := (\<lambda>_. 0)(1 := 0x7FF8000000000000, 2 := DBL_1)\<rparr>)) = CR_SO \<and>
   fpscr (ppc_fcmpo
      (ppc_state_0\<lparr>ppc_cur_instruction := 0xFC011040,
         fpr := (\<lambda>_. 0)(1 := 0x7FF8000000000000, 2 := DBL_1)\<rparr>))
     AND (FPSCR_FX OR FPSCR_VXVC OR FPSCR_VXSNAN) = 0"
  by (simp add: ppc_fcmpo_def Let_def ppc_state_0_def REG_A_def REG_B_def CRF_D_def
      fp_compare_def isnan_def CR_defs FPSCR_defs DBL_defs)

subsection \<open>The host rounding mode after a move to the FPSCR\<close>

text \<open>
  C7, at \<^verbatim>\<open>mtfsb1 31\<close> (instruction word \<^verbatim>\<open>0xFFE0004C\<close>) with an FPSCR of 0
  and the host rounding to nearest, as RN = 00 asks. The instruction sets the low bit of
  RN, so the new RN names rounding toward zero; the handler writes the FPSCR without
  going through \<^verbatim>\<open>update_fpscr\<close>, and the host still rounds to nearest.
\<close>

theorem ppc_mtfsb1_leaves_host_rounding:
  "host_round (ppc_state_0\<lparr>ppc_cur_instruction := 0xFFE0004C\<rparr>) =
     rn_mode (fpscr (ppc_state_0\<lparr>ppc_cur_instruction := 0xFFE0004C\<rparr>)) \<and>
   fpscr (ppc_mtfsb1 (ppc_state_0\<lparr>ppc_cur_instruction := 0xFFE0004C\<rparr>)) = 1 \<and>
   rn_mode (fpscr (ppc_mtfsb1 (ppc_state_0\<lparr>ppc_cur_instruction := 0xFFE0004C\<rparr>))) =
     FE_TOWARDZERO \<and>
   host_round (ppc_mtfsb1 (ppc_state_0\<lparr>ppc_cur_instruction := 0xFFE0004C\<rparr>)) = FE_TONEAREST"
  by (simp add: ppc_mtfsb1_def Let_def ppc_state_0_def rn_mode_def FPSCR_defs)

section \<open>What the helpers do establish\<close>

subsection \<open>update\_fex computes the spec's FEX\<close>

lemma and_pow_ne0: "(w :: u32) AND 2 ^ n \<noteq> 0 \<longleftrightarrow> bit w n"
  by (simp add: and_exp_eq_0_iff_not_bit)

lemma fex_spec_bits:
  "fex_spec f \<longleftrightarrow>
     (bit f 29 \<and> bit f 7) \<or> (bit f 28 \<and> bit f 6) \<or> (bit f 27 \<and> bit f 5) \<or>
     (bit f 26 \<and> bit f 4) \<or> (bit f 25 \<and> bit f 3)"
proof -
  have c: "FPSCR_VX = 2 ^ 29" "FPSCR_OX = 2 ^ 28" "FPSCR_UX = 2 ^ 27" "FPSCR_ZX = 2 ^ 26"
    "FPSCR_XX = 2 ^ 25" "FPSCR_VE = 2 ^ 7" "FPSCR_OE = 2 ^ 6" "FPSCR_UE = 2 ^ 5"
    "FPSCR_ZE = 2 ^ 4" "FPSCR_XE = 2 ^ 3"
    by (simp_all add: FPSCR_defs)
  show ?thesis
    by (simp only: fex_spec_def c and_pow_ne0)
qed

lemma and_or_eq_0: "(w :: u32) AND (a OR b) = 0 \<longleftrightarrow> w AND a = 0 \<and> w AND b = 0"
  by (simp add: bit.conj_disj_distrib or_eq_0_iff)

lemma summary_mask_ne0:
  "(w :: u32) AND 0x3E000000 \<noteq> 0 \<longleftrightarrow>
     bit w 29 \<or> bit w 28 \<or> bit w 27 \<or> bit w 26 \<or> bit w 25"
proof -
  have e: "(0x3E000000 :: u32) = 2 ^ 29 OR (2 ^ 28 OR (2 ^ 27 OR (2 ^ 26 OR 2 ^ 25)))"
    by simp
  show ?thesis
    by (simp only: e and_or_eq_0 de_Morgan_conj and_pow_ne0)
qed

lemma fex_result_is_spec:
  "((f AND push_bit 22 f) AND 0x3E000000 \<noteq> 0) = fex_spec (f :: u32)"
  by (simp add: summary_mask_ne0 fex_spec_bits bit_and_iff bit_push_bit_iff possible_bit_word)

lemma update_fex_bit:
  "bit (fpscr (update_fex s)) n \<longleftrightarrow>
     (if n = 30 then fex_spec (fpscr s) else bit (fpscr s) n)"
proof -
  have p: "(0x40000000 :: u32) = push_bit 30 1" by simp
  have "(if fex_spec (fpscr s) then 1 else 0 :: u32) = of_bool (fex_spec (fpscr s))" by simp
  then have "fpscr (update_fex s) =
      (fpscr s AND NOT (push_bit 30 1)) OR push_bit 30 (of_bool (fex_spec (fpscr s)))"
    by (simp only: update_fex_def Let_def fex_result_is_spec p) simp
  then show ?thesis
    apply (simp only: bit_or_iff bit_and_iff bit_not_iff bit_push_bit_iff bit_1_iff bit_of_bool_iff)
    apply (auto simp: possible_bit_word dest: bit_imp_le_length)
    done
qed

lemma update_fex_invariant: "fex_invariant (fpscr (update_fex s))"
proof -
  have f: "FPSCR_FEX = 2 ^ 30" by (simp add: FPSCR_defs)
  show ?thesis
    by (simp only: fex_invariant_def f and_pow_ne0 fex_spec_bits update_fex_bit) simp
qed

text \<open>
  \<^verbatim>\<open>update_fex\<close> makes FEX the OR of the five enabled exception summaries,
  whatever the FPSCR held, and so does \<^verbatim>\<open>ppc_confirm_inf_nan\<close>, which ends every one
  of its cases with it.
\<close>

theorem update_fex_establishes_fex_invariant:
  "fex_invariant (fpscr (update_fex s)) \<and>
   fex_invariant (fpscr (ppc_confirm_inf_nan fpop host chosen_reg_1 chosen_reg_2 s))"
  by (cases fpop) (simp_all add: ppc_confirm_inf_nan_def Let_def update_fex_invariant)

subsection \<open>update\_fpscr keeps the host rounding mode in step\<close>

lemma and3_cases: "(n :: u32) AND 3 = 0 \<or> n AND 3 = 1 \<or> n AND 3 = 2 \<or> n AND 3 = 3"
proof -
  have "n AND 3 \<le> 3" by (rule word_and_le1)
  then have "unat (n AND 3) \<le> 3" by (simp add: word_le_nat_alt)
  then have "unat (n AND 3) = 0 \<or> unat (n AND 3) = 1 \<or> unat (n AND 3) = 2 \<or>
      unat (n AND 3) = 3"
    by arith
  then show ?thesis
    by (simp add: word_unat_eq_iff)
qed

lemma set_host_rounding_mode_rn:
  "host_round (set_host_rounding_mode (ucast (n AND FPSCR_RN_MASK)) s) = rn_mode n"
  using and3_cases [of n]
  by (auto simp: set_host_rounding_mode_def rn_mode_def FPSCR_RN_MASK_def Let_def)

lemma set_host_rounding_mode_fpscr [simp]: "fpscr (set_host_rounding_mode m s) = fpscr s"
  by (simp add: set_host_rounding_mode_def Let_def)

lemma rn_mode_cong: "a AND FPSCR_RN_MASK = b AND FPSCR_RN_MASK \<Longrightarrow> rn_mode a = rn_mode b"
  by (simp add: rn_mode_def)

text \<open>
  If the host rounding mode is the one FPSCR[RN] names, then after
  \<^verbatim>\<open>update_fpscr\<close> it is the one the new FPSCR[RN] names. The four move handlers
  do not call it: they leave the host rounding mode as it was.
\<close>

theorem update_fpscr_syncs_host_rounding:
  assumes "host_round s = rn_mode (fpscr s)"
  shows "host_round (update_fpscr new_fpscr s) = rn_mode new_fpscr \<and>
         fpscr (update_fpscr new_fpscr s) = new_fpscr"
proof (cases "new_fpscr AND FPSCR_RN_MASK = fpscr s AND FPSCR_RN_MASK")
  case True
  then show ?thesis
    using assms rn_mode_cong [OF True] by (simp add: update_fpscr_def)
next
  case False
  then show ?thesis
    by (simp add: update_fpscr_def set_host_rounding_mode_rn)
qed

theorem update_fpscr_syncs_host_rounding_witness:
  "host_round ppc_state_0 = rn_mode (fpscr ppc_state_0) \<and>
   host_round (update_fpscr 1 ppc_state_0) = FE_TOWARDZERO \<and>
   fpscr (update_fpscr 1 ppc_state_0) = 1"
proof -
  have h: "host_round ppc_state_0 = rn_mode (fpscr ppc_state_0)"
    by (simp add: ppc_state_0_def rn_mode_def)
  have "rn_mode 1 = FE_TOWARDZERO"
    by (simp add: rn_mode_def FPSCR_defs)
  then show ?thesis
    using h update_fpscr_syncs_host_rounding [OF h, of 1] by simp
qed

theorem fpscr_moves_leave_host_rounding:
  "host_round (ppc_mtfsf s) = host_round s \<and> host_round (ppc_mtfsfi s) = host_round s \<and>
   host_round (ppc_mtfsb0 s) = host_round s \<and> host_round (ppc_mtfsb1 s) = host_round s"
  by (simp add: ppc_mtfsf_def ppc_mtfsfi_def ppc_mtfsb0_def ppc_mtfsb1_def Let_def)

subsection \<open>fctiwz saturates\<close>

lemma cvi_fpscr:
  fixes f g :: u32
  shows "((f AND NOT (FPSCR_FR OR FPSCR_FI)) OR (FPSCR_VXCVI OR FPSCR_VX)) AND FPSCR_VE
           = f AND FPSCR_VE"
    and "((f AND NOT (FPSCR_FR OR FPSCR_FI)) OR (FPSCR_VXCVI OR FPSCR_VX)) AND FPSCR_FX
           = f AND FPSCR_FX"
    and "((f AND NOT (FPSCR_FR OR FPSCR_FI)) OR (FPSCR_VXCVI OR FPSCR_VX))
           AND (FPSCR_VXCVI OR FPSCR_VX) = FPSCR_VXCVI OR FPSCR_VX"
    and "(g OR FPSCR_VXSNAN) AND FPSCR_VE = g AND FPSCR_VE"
    and "(g OR FPSCR_VXSNAN) AND FPSCR_FX = g AND FPSCR_FX"
    and "(g OR FPSCR_VXSNAN) AND (FPSCR_VXCVI OR FPSCR_VX) = g AND (FPSCR_VXCVI OR FPSCR_VX)"
  by (simp_all add: bit.conj_disj_distrib2 and.assoc FPSCR_defs)

lemma round_to_int_saturates:
  assumes ve: "fpscr s AND FPSCR_VE = 0"
    and bad: "isnan (fpr s (REG_B (ppc_cur_instruction s))) \<or>
              dbl_gt (fpr s (REG_B (ppc_cur_instruction s))) DBL_INT32_MAX \<or>
              dbl_lt (fpr s (REG_B (ppc_cur_instruction s))) DBL_INT32_MIN"
  shows "fpr (round_to_int host mode s) (REG_D (ppc_cur_instruction s)) =
           (if dbl_ge (fpr s (REG_B (ppc_cur_instruction s))) DBL_0
            then 0xFFF800007FFFFFFF else 0xFFF8000080000000) \<and>
         fpscr (round_to_int host mode s) AND (FPSCR_VXCVI OR FPSCR_VX)
           = FPSCR_VXCVI OR FPSCR_VX \<and>
         fpscr (round_to_int host mode s) AND FPSCR_FX = fpscr s AND FPSCR_FX \<and>
         signalled (round_to_int host mode s) = signalled s"
proof (cases "isnan (fpr s (REG_B (ppc_cur_instruction s)))")
  case True
  then have "\<not> dbl_ge (fpr s (REG_B (ppc_cur_instruction s))) DBL_0"
    by (simp add: dbl_ge_def)
  with True ve show ?thesis
    by (simp add: round_to_int_def Let_def fpscr_and_def fpscr_set_def store_fpresult_def
        cvi_fpscr rc_update_def ppc_update_cr1_def ppc_floating_point_exception_def
        del: bit.de_Morgan_disj)
next
  case False
  with bad ve show ?thesis
    by (simp add: round_to_int_def Let_def fpscr_and_def fpscr_set_def store_fpresult_def
        cvi_fpscr rc_update_def ppc_update_cr1_def ppc_floating_point_exception_def
        del: bit.de_Morgan_disj)
qed

text \<open>
  With the invalid-operation exception disabled (VE clear) and an operand that is a NaN,
  above 2147483647.0 or below -2147483648.0, \<^verbatim>\<open>fctiwz\<close> writes
  \<^verbatim>\<open>0xFFF800007FFFFFFF\<close> to frD when the operand is not a NaN and is at least 0,
  and \<^verbatim>\<open>0xFFF8000080000000\<close> otherwise (a negative operand or a NaN); it sets VX
  and VXCVI, raises nothing, and leaves FX as it was.
\<close>

theorem ppc_fctiwz_saturates:
  assumes "fpscr s AND FPSCR_VE = 0"
    and "isnan (fpr s (REG_B (ppc_cur_instruction s))) \<or>
         dbl_gt (fpr s (REG_B (ppc_cur_instruction s))) DBL_INT32_MAX \<or>
         dbl_lt (fpr s (REG_B (ppc_cur_instruction s))) DBL_INT32_MIN"
  shows "fpr (ppc_fctiwz host s) (REG_D (ppc_cur_instruction s)) =
           (if dbl_ge (fpr s (REG_B (ppc_cur_instruction s))) DBL_0
            then 0xFFF800007FFFFFFF else 0xFFF8000080000000) \<and>
         fpscr (ppc_fctiwz host s) AND (FPSCR_VXCVI OR FPSCR_VX) = FPSCR_VXCVI OR FPSCR_VX \<and>
         fpscr (ppc_fctiwz host s) AND FPSCR_FX = fpscr s AND FPSCR_FX \<and>
         signalled (ppc_fctiwz host s) = signalled s"
  unfolding ppc_fctiwz_def using assms by (rule round_to_int_saturates)

text \<open>The operand -3.0e10 (bit pattern \<^verbatim>\<open>0xC21BF08EB0000000\<close>) gives the negative sentinel.\<close>

theorem ppc_fctiwz_saturates_witness:
  "fpscr (ppc_state_0\<lparr>ppc_cur_instruction := 0xFC20101E,
      fpr := (\<lambda>_. 0)(2 := 0xC21BF08EB0000000)\<rparr>) AND FPSCR_VE = 0 \<and>
   dbl_lt 0xC21BF08EB0000000 DBL_INT32_MIN \<and>
   (\<forall>host. fpr (ppc_fctiwz host (ppc_state_0\<lparr>ppc_cur_instruction := 0xFC20101E,
      fpr := (\<lambda>_. 0)(2 := 0xC21BF08EB0000000)\<rparr>)) 1 = 0xFFF8000080000000)"
proof -
  let ?s = "ppc_state_0\<lparr>ppc_cur_instruction := 0xFC20101E,
      fpr := (\<lambda>_. 0)(2 := 0xC21BF08EB0000000)\<rparr>"
  have r: "REG_B 0xFC20101E = 2" "REG_D 0xFC20101E = 1"
    by (simp_all add: REG_B_def REG_D_def)
  have v: "fpscr ?s AND FPSCR_VE = 0"
    by (simp add: ppc_state_0_def)
  have lt: "dbl_lt 0xC21BF08EB0000000 DBL_INT32_MIN"
    by (simp add: dbl_lt_def isnan_def dbl_key_def DBL_defs)
  have ge: "\<not> dbl_ge 0xC21BF08EB0000000 DBL_0"
    by (simp add: dbl_ge_def isnan_def dbl_key_def DBL_defs)
  have bad: "isnan (fpr ?s (REG_B (ppc_cur_instruction ?s))) \<or>
      dbl_gt (fpr ?s (REG_B (ppc_cur_instruction ?s))) DBL_INT32_MAX \<or>
      dbl_lt (fpr ?s (REG_B (ppc_cur_instruction ?s))) DBL_INT32_MIN"
    using lt by (simp add: r)
  show ?thesis
    using v lt ge ppc_fctiwz_saturates [OF v bad] by (simp add: r)
qed

subsection \<open>The arithmetic handlers add to FPCC\<close>

lemma fpscr_and_fpcc:
  "c AND FPSCR_FPCC_MASK = FPSCR_FPCC_MASK \<Longrightarrow>
   fpscr (fpscr_and c s) AND FPSCR_FPCC_MASK = fpscr s AND FPSCR_FPCC_MASK"
  by (simp add: fpscr_and_def and.assoc)

lemma fpscr_set_fpcc:
  "b AND FPSCR_FPCC_MASK = 0 \<Longrightarrow>
   fpscr (fpscr_set b s) AND FPSCR_FPCC_MASK = fpscr s AND FPSCR_FPCC_MASK"
  by (simp add: fpscr_set_def bit.conj_disj_distrib2)

lemma update_fex_fpcc:
  "fpscr (update_fex s) AND FPSCR_FPCC_MASK = fpscr s AND FPSCR_FPCC_MASK"
proof -
  define r :: u32 where
    "r = (if (fpscr s AND push_bit 22 (fpscr s)) AND 0x3E000000 \<noteq> 0 then 1 else 0)"
  have eq: "fpscr (update_fex s) = (fpscr s AND NOT 0x40000000) OR push_bit 30 r"
    by (simp add: update_fex_def Let_def r_def)
  have a: "NOT (0x40000000 :: u32) AND FPSCR_FPCC_MASK = FPSCR_FPCC_MASK"
    by (simp add: FPSCR_defs)
  have b: "push_bit 30 r AND FPSCR_FPCC_MASK = 0"
    by (simp add: r_def FPSCR_defs)
  show ?thesis
    by (simp only: eq bit.conj_disj_distrib2 and.assoc a b or.right_neutral)
qed

lemma confirm_inf_nan_fpcc:
  "fpscr (ppc_confirm_inf_nan fpop host r1 r2 s) AND FPSCR_FPCC_MASK
     = fpscr s AND FPSCR_FPCC_MASK"
proof -
  have c: "(0x7fbfffff :: u32) AND FPSCR_FPCC_MASK = FPSCR_FPCC_MASK"
    "(FPSCR_FX OR FPSCR_VXIDI) AND FPSCR_FPCC_MASK = 0"
    "(FPSCR_FX OR FPSCR_VXZDZ) AND FPSCR_FPCC_MASK = 0"
    "(FPSCR_FX OR FPSCR_VXISI) AND FPSCR_FPCC_MASK = 0"
    "(FPSCR_FX OR FPSCR_VXSQRT) AND FPSCR_FPCC_MASK = 0"
    "FPSCR_FX AND FPSCR_FPCC_MASK = 0"
    by (simp_all add: FPSCR_defs)
  show ?thesis
    by (cases fpop)
      (simp_all add: ppc_confirm_inf_nan_def Let_def update_fex_fpcc fpscr_set_fpcc
        fpscr_and_fpcc c)
qed

lemma update_fex_frame [simp]:
  "ppc_cur_instruction (update_fex s) = ppc_cur_instruction s"
  "fpr (update_fex s) = fpr s"
  by (simp_all add: update_fex_def Let_def)

lemma fpscr_set_frame [simp]:
  "ppc_cur_instruction (fpscr_set b s) = ppc_cur_instruction s"
  "fpr (fpscr_set b s) = fpr s"
  by (simp_all add: fpscr_set_def)

lemma fpscr_and_frame [simp]:
  "ppc_cur_instruction (fpscr_and b s) = ppc_cur_instruction s"
  "fpr (fpscr_and b s) = fpr s"
  by (simp_all add: fpscr_and_def)

lemma confirm_inf_nan_frame [simp]:
  "ppc_cur_instruction (ppc_confirm_inf_nan fpop host r1 r2 s) = ppc_cur_instruction s"
  "fpr (ppc_confirm_inf_nan fpop host r1 r2 s) = fpr s"
  by (cases fpop; simp add: ppc_confirm_inf_nan_def Let_def)+

lemma fma_checks_fpcc:
  "fpscr (fma_checks fpop2 host s) AND FPSCR_FPCC_MASK = fpscr s AND FPSCR_FPCC_MASK"
  by (simp add: fma_checks_def Let_def confirm_inf_nan_fpcc)

lemma fma_checks_frame [simp]:
  "ppc_cur_instruction (fma_checks fpop2 host s) = ppc_cur_instruction s"
  "fpr (fma_checks fpop2 host s) = fpr s"
  by (simp_all add: fma_checks_def Let_def)

lemma fp_retire_fpcc:
  "fpscr (fp_retire r s) AND FPSCR_FPCC_MASK = (fpscr s AND FPSCR_FPCC_MASK) OR fpcc_of r"
  by (simp add: fp_retire_def fpresult_update_fpcc store_fpresult_def)

lemma fpresult_update_fpr [simp]: "fpr (fpresult_update r s) = fpr s"
  by (simp add: fpresult_update_def fpscr_set_def Let_def)

lemma fp_retire_fpr:
  "ppc_cur_instruction s = i \<Longrightarrow> fpr (fp_retire r s) (REG_D i) = r"
  by (simp add: fp_retire_def store_fpresult_def)

lemma funan_set_fpcc:
  "fpscr (fpscr_set FPCC_FUNAN s) AND FPSCR_FPCC_MASK
     = (fpscr s AND FPSCR_FPCC_MASK) OR FPCC_FUNAN"
proof -
  have k: "FPCC_FUNAN AND FPSCR_FPCC_MASK = FPCC_FUNAN" by (simp add: FPSCR_defs)
  show ?thesis
    by (simp add: fpscr_set_def bit.conj_disj_distrib2 k)
qed

lemma ppc_fadd_fpcc:
  "fpscr (ppc_fadd host s) AND FPSCR_FPCC_MASK =
     (fpscr s AND FPSCR_FPCC_MASK)
       OR (if isnan (fpr s (REG_A (ppc_cur_instruction s))) \<or>
              isnan (fpr s (REG_B (ppc_cur_instruction s)))
           then FPCC_FUNAN else 0)
       OR fpcc_of (fpr (ppc_fadd host s) (REG_D (ppc_cur_instruction s)))"
  by (simp add: ppc_fadd_def Let_def fp_retire_fpcc fp_retire_fpr confirm_inf_nan_fpcc
      funan_set_fpcc or.assoc)

lemma ppc_fsub_fpcc:
  "fpscr (ppc_fsub host s) AND FPSCR_FPCC_MASK =
     (fpscr s AND FPSCR_FPCC_MASK)
       OR (if isnan (fpr s (REG_A (ppc_cur_instruction s))) \<or>
              isnan (fpr s (REG_B (ppc_cur_instruction s)))
           then FPCC_FUNAN else 0)
       OR fpcc_of (fpr (ppc_fsub host s) (REG_D (ppc_cur_instruction s)))"
  by (simp add: ppc_fsub_def Let_def fp_retire_fpcc fp_retire_fpr confirm_inf_nan_fpcc
      funan_set_fpcc or.assoc)

lemma ppc_fdiv_fpcc:
  "fpscr (ppc_fdiv host s) AND FPSCR_FPCC_MASK =
     (fpscr s AND FPSCR_FPCC_MASK)
       OR fpcc_of (fpr (ppc_fdiv host s) (REG_D (ppc_cur_instruction s)))"
  by (simp add: ppc_fdiv_def Let_def fp_retire_fpcc fp_retire_fpr confirm_inf_nan_fpcc)

lemma ppc_fmul_fpcc:
  "fpscr (ppc_fmul host s) AND FPSCR_FPCC_MASK =
     (fpscr s AND FPSCR_FPCC_MASK)
       OR fpcc_of (fpr (ppc_fmul host s) (REG_D (ppc_cur_instruction s)))"
  by (simp add: ppc_fmul_def Let_def fp_retire_fpcc fp_retire_fpr confirm_inf_nan_fpcc)

lemma ppc_fma_fpcc:
  "fpscr (ppc_fmadd host s) AND FPSCR_FPCC_MASK =
     (fpscr s AND FPSCR_FPCC_MASK)
       OR fpcc_of (fpr (ppc_fmadd host s) (REG_D (ppc_cur_instruction s)))"
  "fpscr (ppc_fmsub host s) AND FPSCR_FPCC_MASK =
     (fpscr s AND FPSCR_FPCC_MASK)
       OR fpcc_of (fpr (ppc_fmsub host s) (REG_D (ppc_cur_instruction s)))"
  "fpscr (ppc_fnmadd host s) AND FPSCR_FPCC_MASK =
     (fpscr s AND FPSCR_FPCC_MASK)
       OR fpcc_of (fpr (ppc_fnmadd host s) (REG_D (ppc_cur_instruction s)))"
  "fpscr (ppc_fnmsub host s) AND FPSCR_FPCC_MASK =
     (fpscr s AND FPSCR_FPCC_MASK)
       OR fpcc_of (fpr (ppc_fnmsub host s) (REG_D (ppc_cur_instruction s)))"
  by (simp_all add: ppc_fmadd_def ppc_fmsub_def ppc_fnmadd_def ppc_fnmsub_def Let_def
      fp_retire_fpcc fp_retire_fpr fma_checks_fpcc)

lemma ppc_single_fpcc:
  "fpscr (ppc_fadds host s) AND FPSCR_FPCC_MASK =
     (fpscr s AND FPSCR_FPCC_MASK)
       OR fpcc_of (fpr (ppc_fadds host s) (REG_D (ppc_cur_instruction s)))"
  "fpscr (ppc_fsubs host s) AND FPSCR_FPCC_MASK =
     (fpscr s AND FPSCR_FPCC_MASK)
       OR fpcc_of (fpr (ppc_fsubs host s) (REG_D (ppc_cur_instruction s)))"
  "fpscr (ppc_fdivs host s) AND FPSCR_FPCC_MASK =
     (fpscr s AND FPSCR_FPCC_MASK)
       OR fpcc_of (fpr (ppc_fdivs host s) (REG_D (ppc_cur_instruction s)))"
  "fpscr (ppc_fmuls host s) AND FPSCR_FPCC_MASK =
     (fpscr s AND FPSCR_FPCC_MASK)
       OR fpcc_of (fpr (ppc_fmuls host s) (REG_D (ppc_cur_instruction s)))"
  by (simp_all add: ppc_fadds_def ppc_fsubs_def ppc_fdivs_def ppc_fmuls_def Let_def
      fp_retire_fpcc fp_retire_fpr confirm_inf_nan_fpcc)

lemma ppc_fma_single_fpcc:
  "fpscr (ppc_fmadds host s) AND FPSCR_FPCC_MASK =
     (fpscr s AND FPSCR_FPCC_MASK)
       OR fpcc_of (fpr (ppc_fmadds host s) (REG_D (ppc_cur_instruction s)))"
  "fpscr (ppc_fmsubs host s) AND FPSCR_FPCC_MASK =
     (fpscr s AND FPSCR_FPCC_MASK)
       OR fpcc_of (fpr (ppc_fmsubs host s) (REG_D (ppc_cur_instruction s)))"
  "fpscr (ppc_fnmadds host s) AND FPSCR_FPCC_MASK =
     (fpscr s AND FPSCR_FPCC_MASK)
       OR fpcc_of (fpr (ppc_fnmadds host s) (REG_D (ppc_cur_instruction s)))"
  "fpscr (ppc_fnmsubs host s) AND FPSCR_FPCC_MASK =
     (fpscr s AND FPSCR_FPCC_MASK)
       OR fpcc_of (fpr (ppc_fnmsubs host s) (REG_D (ppc_cur_instruction s)))"
  by (simp_all add: ppc_fmadds_def ppc_fmsubs_def ppc_fnmadds_def ppc_fnmsubs_def Let_def
      fp_retire_fpcc fp_retire_fpr fma_checks_fpcc)

text \<open>
  For each of the sixteen arithmetic handlers, the FPCC after the instruction is the
  FPCC before it together with the bits the spec derives from the result written to
  frD (QNaN: FU; > 0: FG; < 0: FL; zero: FE; infinite: also FU); \<^verbatim>\<open>fadd\<close> and
  \<^verbatim>\<open>fsub\<close> add FU as well when an operand is a NaN. No FPCC bit is cleared, so
  exactly the derived bits are set when FPCC was clear before the instruction.
\<close>

theorem fp_arith_adds_to_fpcc:
  "fpscr (ppc_fadd host s) AND FPSCR_FPCC_MASK =
     (fpscr s AND FPSCR_FPCC_MASK)
       OR (if isnan (fpr s (REG_A (ppc_cur_instruction s))) \<or>
              isnan (fpr s (REG_B (ppc_cur_instruction s)))
           then FPCC_FUNAN else 0)
       OR fpcc_of (fpr (ppc_fadd host s) (REG_D (ppc_cur_instruction s))) \<and>
   fpscr (ppc_fsub host s) AND FPSCR_FPCC_MASK =
     (fpscr s AND FPSCR_FPCC_MASK)
       OR (if isnan (fpr s (REG_A (ppc_cur_instruction s))) \<or>
              isnan (fpr s (REG_B (ppc_cur_instruction s)))
           then FPCC_FUNAN else 0)
       OR fpcc_of (fpr (ppc_fsub host s) (REG_D (ppc_cur_instruction s))) \<and>
   (\<forall>h \<in> {ppc_fdiv, ppc_fmul, ppc_fmadd, ppc_fmsub, ppc_fnmadd, ppc_fnmsub,
            ppc_fadds, ppc_fsubs, ppc_fdivs, ppc_fmuls,
            ppc_fmadds, ppc_fmsubs, ppc_fnmadds, ppc_fnmsubs}.
      fpscr (h host s) AND FPSCR_FPCC_MASK =
        (fpscr s AND FPSCR_FPCC_MASK)
          OR fpcc_of (fpr (h host s) (REG_D (ppc_cur_instruction s))))"
  using ppc_fadd_fpcc [of host s] ppc_fsub_fpcc [of host s] ppc_fdiv_fpcc [of host s]
    ppc_fmul_fpcc [of host s] ppc_fma_fpcc [of host s] ppc_single_fpcc [of host s]
    ppc_fma_single_fpcc [of host s]
  by simp

theorem fp_arith_adds_to_fpcc_witness:
  "ppc_fdiv \<in> {ppc_fdiv, ppc_fmul, ppc_fmadd, ppc_fmsub, ppc_fnmadd, ppc_fnmsub,
            ppc_fadds, ppc_fsubs, ppc_fdivs, ppc_fmuls,
            ppc_fmadds, ppc_fmsubs, ppc_fnmadds, ppc_fnmsubs} \<and>
   (\<forall>host. fpscr (ppc_fdiv host (ppc_state_0\<lparr>fpscr := FPCC_NEG\<rparr>)) AND FPCC_NEG = FPCC_NEG)"
proof -
  have k: "(FPCC_NEG OR x) AND FPCC_NEG = FPCC_NEG" for x :: u32
    by (simp add: bit.conj_disj_distrib2)
  have m: "FPCC_NEG AND FPSCR_FPCC_MASK = FPCC_NEG" "FPSCR_FPCC_MASK AND FPCC_NEG = FPCC_NEG"
    by (simp_all add: FPSCR_defs)
  have "fpscr (ppc_fdiv host (ppc_state_0\<lparr>fpscr := FPCC_NEG\<rparr>)) AND FPCC_NEG = FPCC_NEG"
    for host
  proof -
    from fp_arith_adds_to_fpcc [of host "ppc_state_0\<lparr>fpscr := FPCC_NEG\<rparr>"]
    have "fpscr (ppc_fdiv host (ppc_state_0\<lparr>fpscr := FPCC_NEG\<rparr>)) AND FPSCR_FPCC_MASK =
        FPCC_NEG OR fpcc_of (fpr (ppc_fdiv host (ppc_state_0\<lparr>fpscr := FPCC_NEG\<rparr>))
          (REG_D (ppc_cur_instruction (ppc_state_0\<lparr>fpscr := FPCC_NEG\<rparr>))))"
      by (simp add: m)
    then have "(fpscr (ppc_fdiv host (ppc_state_0\<lparr>fpscr := FPCC_NEG\<rparr>)) AND FPSCR_FPCC_MASK)
        AND FPCC_NEG = FPCC_NEG"
      by (simp only: k)
    then show ?thesis
      by (simp only: and.assoc m)
  qed
  then show ?thesis by simp
qed

subsection \<open>fcmpo writes the FPCC field only\<close>

lemma fp_compare_cases:
  "fp_compare a b = CR_SO \<or> fp_compare a b = CR_LT \<or> fp_compare a b = CR_GT \<or>
   fp_compare a b = CR_EQ"
  by (simp add: fp_compare_def)

lemma fpcc_field_write:
  fixes f :: u32
  assumes "c = CR_SO \<or> c = CR_LT \<or> c = CR_GT \<or> c = CR_EQ"
  shows "((f AND NOT FPSCR_FPCC_MASK) OR drop_bit 16 c) AND NOT FPSCR_FPCC_MASK
           = f AND NOT FPSCR_FPCC_MASK"
    and "((f AND NOT FPSCR_FPCC_MASK) OR drop_bit 16 c) AND FPSCR_FPCC_MASK = drop_bit 16 c"
proof -
  have z: "drop_bit 16 c AND NOT FPSCR_FPCC_MASK = 0"
    and k: "drop_bit 16 c AND FPSCR_FPCC_MASK = drop_bit 16 c"
    using assms by (auto simp: CR_defs FPSCR_defs)
  show "((f AND NOT FPSCR_FPCC_MASK) OR drop_bit 16 c) AND NOT FPSCR_FPCC_MASK
      = f AND NOT FPSCR_FPCC_MASK"
    by (simp add: bit.conj_disj_distrib2 z and.assoc)
  show "((f AND NOT FPSCR_FPCC_MASK) OR drop_bit 16 c) AND FPSCR_FPCC_MASK = drop_bit 16 c"
    by (simp add: bit.conj_disj_distrib2 k and.assoc)
qed

text \<open>
  \<^verbatim>\<open>ppc_fcmpo\<close> does what \<^verbatim>\<open>ppc_fcmpu\<close> does. Of the FPSCR it replaces the
  FPCC field by the outcome of the comparison (FU when an operand is a NaN) and
  leaves every other bit, the exception bits included, as it was; it raises nothing.
\<close>

theorem ppc_fcmpo_writes_fpcc_only:
  "ppc_fcmpo s = ppc_fcmpu s \<and>
   fpscr (ppc_fcmpo s) AND NOT FPSCR_FPCC_MASK = fpscr s AND NOT FPSCR_FPCC_MASK \<and>
   fpscr (ppc_fcmpo s) AND FPSCR_FPCC_MASK =
     (if isnan (fpr s (REG_A (ppc_cur_instruction s))) \<or>
         isnan (fpr s (REG_B (ppc_cur_instruction s)))
      then FPCC_FUNAN
      else drop_bit 16 (fp_compare (fpr s (REG_A (ppc_cur_instruction s)))
                                   (fpr s (REG_B (ppc_cur_instruction s))))) \<and>
   signalled (ppc_fcmpo s) = signalled s"
proof -
  have so: "drop_bit 16 CR_SO = FPCC_FUNAN"
    by (simp add: CR_defs FPSCR_defs)
  have nan: "isnan a \<or> isnan b \<Longrightarrow> fp_compare a b = CR_SO" for a b
    by (simp add: fp_compare_def)
  show ?thesis
    using fpcc_field_write [OF fp_compare_cases, of "fpscr s"
        "fpr s (REG_A (ppc_cur_instruction s))" "fpr s (REG_B (ppc_cur_instruction s))"]
      nan [of "fpr s (REG_A (ppc_cur_instruction s))" "fpr s (REG_B (ppc_cur_instruction s))"]
    by (auto simp add: ppc_fcmpo_def ppc_fcmpu_def Let_def so)
qed

end
